theory Spec2Isabelle
  imports Main
begin

section \<open>Values shared by the adapters\<close>

text \<open>
  A Go \<^verbatim>\<open>error\<close> is an interface value that may be nil; it is modelled as
  \<open>error option\<close> with \<open>None\<close> for nil. The status codes and \<^verbatim>\<open>grpc.Code\<close> belong to
  google.golang.org/grpc (release 1.2): an error made by the RPC layer carries its code,
  every other non-nil error has code Unknown, nil has code OK.
\<close>

datatype codes_Code =
  OK | Canceled | Unknown | InvalidArgument | DeadlineExceeded | NotFound | AlreadyExists
  | PermissionDenied | ResourceExhausted | FailedPrecondition | Aborted | OutOfRange
  | Unimplemented | Internal | Unavailable | DataLoss | Unauthenticated

datatype error = RpcError codes_Code string | PlainError string

fun grpc_Code :: "error option \<Rightarrow> codes_Code" where
  "grpc_Code None = OK"
| "grpc_Code (Some (RpcError c m)) = c"
| "grpc_Code (Some (PlainError m)) = Unknown"

fun Code_String :: "codes_Code \<Rightarrow> string" where
  "Code_String OK = ''OK''"
| "Code_String Canceled = ''Canceled''"
| "Code_String Unknown = ''Unknown''"
| "Code_String InvalidArgument = ''InvalidArgument''"
| "Code_String DeadlineExceeded = ''DeadlineExceeded''"
| "Code_String NotFound = ''NotFound''"
| "Code_String AlreadyExists = ''AlreadyExists''"
| "Code_String PermissionDenied = ''PermissionDenied''"
| "Code_String ResourceExhausted = ''ResourceExhausted''"
| "Code_String FailedPrecondition = ''FailedPrecondition''"
| "Code_String Aborted = ''Aborted''"
| "Code_String OutOfRange = ''OutOfRange''"
| "Code_String Unimplemented = ''Unimplemented''"
| "Code_String Internal = ''Internal''"
| "Code_String Unavailable = ''Unavailable''"
| "Code_String DataLoss = ''DataLoss''"
| "Code_String Unauthenticated = ''Unauthenticated''"

text \<open>A tag value is a Go \<^verbatim>\<open>interface{}\<close>; the adapters store strings, one number and errors.\<close>

datatype tag_value = StrV string | NumV int | ErrV error

text \<open>
  The outcome of calling wrapped code (a handler, an invoker, a connector): it returns a
  value together with a possibly nil error, or it panics. None of the adapters recovers
  from a panic or defers anything, so a panic leaves the adapter at the call.
\<close>

datatype 'a call_result = Returned 'a "error option" | Panicked string

section \<open>Tag names\<close>

text \<open>
  Modelled from the spec: the tag-name constants are declared outside src/ (package
  ddtrace/ext, and tags.go of the grpc.v12 package). The tests under src/ read the tags
  service.name, resource.name, span.type and grpc.code under these names; the spec
  names the span kinds server and client. The properties below need of the other names
  only that they differ from one another.
\<close>

definition ext_ServiceName :: string where "ext_ServiceName = ''service.name''"
definition ext_ResourceName :: string where "ext_ResourceName = ''resource.name''"
definition ext_SpanType :: string where "ext_SpanType = ''span.type''"
definition ext_Error :: string where "ext_Error = ''error''"
definition ext_Component :: string where "ext_Component = ''component''"
definition ext_SpanKind :: string where "ext_SpanKind = ''span.kind''"
definition ext_SpanKindServer :: string where "ext_SpanKindServer = ''server''"
definition ext_SpanKindClient :: string where "ext_SpanKindClient = ''client''"
definition ext_AppTypeRPC :: string where "ext_AppTypeRPC = ''rpc''"
definition ext_TargetHost :: string where "ext_TargetHost = ''out.host''"
definition ext_TargetPort :: string where "ext_TargetPort = ''out.port''"
definition keyMeasured :: string where "keyMeasured = ''_dd.measured''"
definition tagMethod :: string where "tagMethod = ''grpc.method''"
definition tagCode :: string where "tagCode = ''grpc.code''"

section \<open>The tracer\<close>

text \<open>
  Modelled from the spec: package ddtrace/tracer is not under src/. The spec (section 6)
  gives its interface: \<^verbatim>\<open>StartSpanFromContext(ctx, name, ...opts) -> (span, ctx)\<close>,
  \<^verbatim>\<open>span.Finish(...opts)\<close>, \<^verbatim>\<open>span.SetTag(key, value)\<close>, \<^verbatim>\<open>Inject\<close> and
  \<^verbatim>\<open>Extract\<close>; options are functions applied left to right, a later one winning.
  The tracer state keeps every span that was started, in order, and a log of every call
  of Finish (so that a second Finish of one span would show). A span handle is the
  position of the span in \<open>spans\<close>. Identifiers are natural numbers; 0 as a parent
  identifier marks a root span. A span with a parent takes the parent's trace
  identifier. Finish with a non-nil error sets the error tag before it records the
  call.
\<close>

record SpanContext =
  TraceID :: nat
  SpanID :: nat

record Span =
  span_Context :: SpanContext
  span_ParentID :: nat
  span_OperationName :: string
  span_Tags :: "string \<rightharpoonup> tag_value"

record StartSpanConfig =
  cfg_Parent :: "SpanContext option"
  cfg_Tags :: "string \<rightharpoonup> tag_value"

type_synonym StartSpanOption = "StartSpanConfig \<Rightarrow> StartSpanConfig"

record FinishConfig =
  fin_Error :: "error option"

type_synonym FinishOption = "FinishConfig \<Rightarrow> FinishConfig"

record Tracer =
  next_id :: nat
  spans :: "Span list"
  finished :: "(nat \<times> error option) list"

definition tracer_Tag :: "string \<Rightarrow> tag_value \<Rightarrow> StartSpanOption" where
  "tracer_Tag k v = (\<lambda>c. c\<lparr>cfg_Tags := (cfg_Tags c)(k \<mapsto> v)\<rparr>)"

definition tracer_ServiceName :: "string \<Rightarrow> StartSpanOption" where
  "tracer_ServiceName name = tracer_Tag ext_ServiceName (StrV name)"

definition tracer_ResourceName :: "string \<Rightarrow> StartSpanOption" where
  "tracer_ResourceName name = tracer_Tag ext_ResourceName (StrV name)"

definition tracer_SpanType :: "string \<Rightarrow> StartSpanOption" where
  "tracer_SpanType name = tracer_Tag ext_SpanType (StrV name)"

definition tracer_Measured :: StartSpanOption where
  "tracer_Measured = tracer_Tag keyMeasured (NumV 1)"

definition tracer_ChildOf :: "SpanContext \<Rightarrow> StartSpanOption" where
  "tracer_ChildOf sctx = (\<lambda>c. c\<lparr>cfg_Parent := Some sctx\<rparr>)"

definition tracer_WithError :: "error option \<Rightarrow> FinishOption" where
  "tracer_WithError err = (\<lambda>c. c\<lparr>fin_Error := err\<rparr>)"

definition apply_options :: "('c \<Rightarrow> 'c) list \<Rightarrow> 'c \<Rightarrow> 'c" where
  "apply_options opts c = fold (\<lambda>fn cfg. fn cfg) opts c"

definition new_StartSpanConfig :: StartSpanConfig where
  "new_StartSpanConfig = \<lparr>cfg_Parent = None, cfg_Tags = Map.empty\<rparr>"

definition newSpan :: "string \<Rightarrow> StartSpanConfig \<Rightarrow> nat \<Rightarrow> Span" where
  "newSpan operationName cfg sid =
     \<lparr>span_Context =
        \<lparr>TraceID = (case cfg_Parent cfg of None \<Rightarrow> sid | Some p \<Rightarrow> TraceID p), SpanID = sid\<rparr>,
      span_ParentID = (case cfg_Parent cfg of None \<Rightarrow> 0 | Some p \<Rightarrow> SpanID p),
      span_OperationName = operationName,
      span_Tags = cfg_Tags cfg\<rparr>"

definition tracer_StartSpan :: "string \<Rightarrow> StartSpanOption list \<Rightarrow> Tracer \<Rightarrow> nat \<times> Tracer" where
  "tracer_StartSpan operationName opts tr =
     (let cfg = apply_options opts new_StartSpanConfig;
          s = newSpan operationName cfg (next_id tr)
      in (length (spans tr), tr\<lparr>next_id := next_id tr + 1, spans := spans tr @ [s]\<rparr>))"

definition span_SetTag :: "nat \<Rightarrow> string \<Rightarrow> tag_value \<Rightarrow> Tracer \<Rightarrow> Tracer" where
  "span_SetTag h k v tr =
     tr\<lparr>spans := (spans tr)[h := (spans tr ! h)\<lparr>span_Tags := (span_Tags (spans tr ! h))(k \<mapsto> v)\<rparr>]\<rparr>"

definition span_Finish :: "nat \<Rightarrow> FinishOption list \<Rightarrow> Tracer \<Rightarrow> Tracer" where
  "span_Finish h opts tr =
     (let cfg = apply_options opts \<lparr>fin_Error = None\<rparr>;
          tr1 = (case fin_Error cfg of
                   None \<Rightarrow> tr
                 | Some e \<Rightarrow> span_SetTag h ext_Error (ErrV e) tr)
      in tr1\<lparr>finished := finished tr1 @ [(h, fin_Error cfg)]\<rparr>)"

section \<open>Contexts, metadata and the carrier\<close>

text \<open>
  A \<^verbatim>\<open>context.Context\<close> is an immutable value. The adapters read and write three things
  in it: the span put there by the tracer, the RPC metadata (release 1.2 of grpc keeps one
  metadata value per context, read by \<^verbatim>\<open>metadata.FromContext\<close> and set by
  \<^verbatim>\<open>metadata.NewContext\<close>), and whether the context is done (cancelled or timed out),
  which only the wrapped code looks at. \<^verbatim>\<open>StartSpanFromContext\<close> makes the new span a
  child of the span the context holds, if it holds one (the test under src/ reads the
  parent of a client span so); that parent is applied after the caller's options. It
  returns the context with the new span in it.
\<close>

type_synonym MD = "string \<rightharpoonup> string list"

record Context =
  ctx_span :: "SpanContext option"
  ctx_md :: "MD option"
  ctx_done :: bool

definition metadata_FromContext :: "Context \<Rightarrow> MD \<times> bool" where
  "metadata_FromContext ctx = (case ctx_md ctx of None \<Rightarrow> (Map.empty, False) | Some md \<Rightarrow> (md, True))"

definition metadata_NewContext :: "Context \<Rightarrow> MD \<Rightarrow> Context" where
  "metadata_NewContext ctx md = ctx\<lparr>ctx_md := Some md\<rparr>"

definition context_options :: "Context \<Rightarrow> StartSpanOption list \<Rightarrow> StartSpanOption list" where
  "context_options ctx opts =
     (case ctx_span ctx of None \<Rightarrow> opts | Some parent \<Rightarrow> opts @ [tracer_ChildOf parent])"

definition tracer_StartSpanFromContext ::
  "Context \<Rightarrow> string \<Rightarrow> StartSpanOption list \<Rightarrow> Tracer \<Rightarrow> nat \<times> Context \<times> Tracer" where
  "tracer_StartSpanFromContext ctx operationName opts tr =
     (let optsLocal = context_options ctx opts;
          (h, tr1) = tracer_StartSpan operationName optsLocal tr
      in (h, ctx\<lparr>ctx_span := Some (span_Context (spans tr1 ! h))\<rparr>, tr1))"

text \<open>
  Modelled from the spec: the carrier (package grpcutil) and the propagator of the tracer
  are not under src/. The spec calls the carrier a key-value view over the RPC metadata
  map, used only to write and read the trace context. Here Inject writes the trace
  identifier and the span identifier as decimal numbers under two keys, and Extract
  reads them back; it fails when a key is missing or its value is not a number.
\<close>

definition MDCarrier_Set :: "string \<Rightarrow> string \<Rightarrow> MD \<Rightarrow> MD" where
  "MDCarrier_Set k v md = md(k \<mapsto> [v])"

definition MDCarrier_Get :: "string \<Rightarrow> MD \<Rightarrow> string" where
  "MDCarrier_Get k md = (case md k of Some (v # vs) \<Rightarrow> v | _ \<Rightarrow> [])"

definition digit_char :: "nat \<Rightarrow> char" where
  "digit_char d = char_of (48 + d)"

definition digit_value :: "char \<Rightarrow> nat option" where
  "digit_value c =
     (let n = (of_char c :: nat) in if 48 \<le> n \<and> n \<le> 57 then Some (n - 48) else None)"

function FormatUint :: "nat \<Rightarrow> string" where
  "FormatUint n = (if n < 10 then [digit_char n] else FormatUint (n div 10) @ [digit_char (n mod 10)])"
  by pat_completeness auto
termination
  by (relation "measure (\<lambda>n. n)") auto

declare FormatUint.simps [simp del]

fun parse_digits :: "nat \<Rightarrow> string \<Rightarrow> nat option" where
  "parse_digits acc [] = Some acc"
| "parse_digits acc (c # cs) =
     (case digit_value c of None \<Rightarrow> None | Some d \<Rightarrow> parse_digits (acc * 10 + d) cs)"

definition ParseUint :: "string \<Rightarrow> nat option" where
  "ParseUint s = (if s = [] then None else parse_digits 0 s)"

definition traceIDHeader :: string where "traceIDHeader = ''x-datadog-trace-id''"
definition parentIDHeader :: string where "parentIDHeader = ''x-datadog-parent-id''"

definition tracer_Inject :: "SpanContext \<Rightarrow> MD \<Rightarrow> MD" where
  "tracer_Inject sctx md =
     MDCarrier_Set parentIDHeader (FormatUint (SpanID sctx))
       (MDCarrier_Set traceIDHeader (FormatUint (TraceID sctx)) md)"

definition tracer_Extract :: "MD \<Rightarrow> error + SpanContext" where
  "tracer_Extract md =
     (let t = MDCarrier_Get traceIDHeader md; p = MDCarrier_Get parentIDHeader md
      in if t = [] \<or> p = [] then Inl (PlainError ''span context not found'')
         else (case (ParseUint t, ParseUint p) of
                 (Some tid, Some sid) \<Rightarrow> Inr \<lparr>TraceID = tid, SpanID = sid\<rparr>
               | _ \<Rightarrow> Inl (PlainError ''span context corrupted'')))"

section \<open>The interceptors of grpc.go\<close>

text \<open>
  Modelled from the spec: the configuration struct, its options and \<^verbatim>\<open>defaults\<close> are
  declared outside src/. grpc.go reads two fields, the service name and the span options.
  An option is a function on the configuration; the options are applied in order, so a
  later one overrides an earlier one for the same field. Both interceptors install their
  fallback name themselves when the service name is still empty after the options, so
  \<^verbatim>\<open>defaults\<close> leaves the service name empty. The call of \<^verbatim>\<open>log.Debug\<close> in both
  interceptors only writes a log line and is left out.
\<close>

record interceptorConfig =
  serviceName :: string
  spanOpts :: "StartSpanOption list"

type_synonym InterceptorOption = "interceptorConfig \<Rightarrow> interceptorConfig"

definition new_interceptorConfig :: interceptorConfig where
  "new_interceptorConfig = \<lparr>serviceName = [], spanOpts = []\<rparr>"

definition defaults :: "interceptorConfig \<Rightarrow> interceptorConfig" where
  "defaults cfg = cfg"

definition WithServiceName :: "string \<Rightarrow> InterceptorOption" where
  "WithServiceName name = (\<lambda>cfg. cfg\<lparr>serviceName := name\<rparr>)"

definition WithSpanOptions :: "StartSpanOption list \<Rightarrow> InterceptorOption" where
  "WithSpanOptions opts = (\<lambda>cfg. cfg\<lparr>spanOpts := opts\<rparr>)"

record UnaryServerInfo =
  FullMethod :: string

text \<open>
  \<^verbatim>\<open>startSpanFromContext\<close> (grpc.go, lines 50 to 69). The slice of options is a list here;
  section ``The option slice in the store'' models the same lines on slices with backing
  arrays. \<open>metadata.FromContext\<close> may give a nil map, which reads as the empty one.
\<close>

definition startSpanFromContext ::
  "Context \<Rightarrow> string \<Rightarrow> string \<Rightarrow> StartSpanOption list \<Rightarrow> Tracer \<Rightarrow> nat \<times> Context \<times> Tracer" where
  "startSpanFromContext ctx method service opts tr =
     (let optsLocal = opts @
            [tracer_ServiceName service,
             tracer_ResourceName method,
             tracer_Tag tagMethod (StrV method),
             tracer_SpanType ext_AppTypeRPC,
             tracer_Measured,
             tracer_Tag ext_Component (StrV ''google.golang.org/grpc.v12''),
             tracer_Tag ext_SpanKind (StrV ext_SpanKindServer)];
          (md, ok) = metadata_FromContext ctx;
          optsLocal = (case tracer_Extract md of
                         Inr sctx \<Rightarrow> optsLocal @ [tracer_ChildOf sctx]
                       | Inl err \<Rightarrow> optsLocal)
      in tracer_StartSpanFromContext ctx ''grpc.server'' optsLocal tr)"

text \<open>
  \<^verbatim>\<open>UnaryServerInterceptor\<close> (grpc.go, lines 28 to 48). The first argument is what
  \<^verbatim>\<open>globalconfig.ServiceName()\<close> returns. \<open>server_config\<close> is the part that runs once,
  when the interceptor is built; the closure it returns is \<open>UnaryServerInterceptor\<close> applied
  to the call's context, request, info and handler, and to the tracer state. The handler
  is a function of the context and the request; spans that a handler starts for itself
  are not the interceptor's and are not tracked.
\<close>

definition server_config :: "string \<Rightarrow> InterceptorOption list \<Rightarrow> interceptorConfig" where
  "server_config globalServiceName opts =
     (let cfg = apply_options opts (defaults new_interceptorConfig)
      in if serviceName cfg = []
         then (let cfg = cfg\<lparr>serviceName := ''grpc.server''\<rparr>
               in if globalServiceName \<noteq> [] then cfg\<lparr>serviceName := globalServiceName\<rparr> else cfg)
         else cfg)"

definition UnaryServerInterceptor ::
  "string \<Rightarrow> InterceptorOption list \<Rightarrow>
   Context \<Rightarrow> 'req \<Rightarrow> UnaryServerInfo \<Rightarrow> (Context \<Rightarrow> 'req \<Rightarrow> 'resp call_result) \<Rightarrow>
   Tracer \<Rightarrow> 'resp call_result \<times> Tracer" where
  "UnaryServerInterceptor globalServiceName opts =
     (let cfg = server_config globalServiceName opts
      in (\<lambda>ctx req info handler tr.
            (let (span, ctx, tr) =
                   startSpanFromContext ctx (FullMethod info) (serviceName cfg) (spanOpts cfg) tr
             in case handler ctx req of
                  Panicked p \<Rightarrow> (Panicked p, tr)
                | Returned resp err \<Rightarrow>
                    (let tr = span_Finish span [tracer_WithError err] tr
                     in (Returned resp err, tr)))))"

text \<open>
  \<^verbatim>\<open>net.SplitHostPort\<close> of the Go standard library, which the client interceptor applies
  to the peer address: the port follows the last colon; a host in square brackets may
  hold colons; anything else with a second colon, and an address with no colon, is an
  error. An address such as \<^verbatim>\<open>:50051\<close> splits into the empty host and the port.
\<close>

definition index_byte :: "string \<Rightarrow> char \<Rightarrow> nat option" where
  "index_byte s c = (if c \<in> set s then Some (length (takeWhile (\<lambda>x. x \<noteq> c) s)) else None)"

definition last_index :: "string \<Rightarrow> char \<Rightarrow> nat option" where
  "last_index s c =
     (if c \<in> set s then Some (length s - 1 - length (takeWhile (\<lambda>x. x \<noteq> c) (rev s))) else None)"

definition split_tail :: "string \<Rightarrow> string \<Rightarrow> nat \<Rightarrow> nat \<Rightarrow> nat \<Rightarrow> error + string \<times> string" where
  "split_tail hostport host i j k =
     (if index_byte (drop j hostport) CHR ''['' \<noteq> None
      then Inl (PlainError ''unexpected '[' in address'')
      else if index_byte (drop k hostport) CHR '']'' \<noteq> None
      then Inl (PlainError ''unexpected ']' in address'')
      else Inr (host, drop (i + 1) hostport))"

definition SplitHostPort :: "string \<Rightarrow> error + string \<times> string" where
  "SplitHostPort hostport =
     (case last_index hostport CHR '':'' of
        None \<Rightarrow> Inl (PlainError ''missing port in address'')
      | Some i \<Rightarrow>
          if hostport ! 0 = CHR ''[''
          then (case index_byte hostport CHR '']'' of
                  None \<Rightarrow> Inl (PlainError ''missing ']' in address'')
                | Some e \<Rightarrow>
                    if e + 1 = length hostport then Inl (PlainError ''missing port in address'')
                    else if e + 1 = i
                    then split_tail hostport (take (e - 1) (drop 1 hostport)) i 1 (e + 1)
                    else if hostport ! (e + 1) = CHR '':''
                    then Inl (PlainError ''too many colons in address'')
                    else Inl (PlainError ''missing port in address''))
          else (let host = take i hostport
                in if index_byte host CHR '':'' \<noteq> None
                   then Inl (PlainError ''too many colons in address'')
                   else split_tail hostport host i 0 0))"

text \<open>
  \<^verbatim>\<open>UnaryClientInterceptor\<close> (grpc.go, lines 72 to 117). \<open>client_config\<close> runs once, when
  the interceptor is built. The invoker fills the reply and, through the call option
  \<^verbatim>\<open>grpc.Peer(&p)\<close> that the interceptor appends, the peer \<open>p\<close>; both are part of the
  invoker's outcome here, and the interceptor's result is the reply with the error it
  returns. \<open>Addr\<close> is the peer address as a string, \<open>None\<close> for a nil address. The inner
  \<^verbatim>\<open>err\<close> of line 105 is a variable of its own: the error tagged and returned at the end
  is the invoker's. \<^verbatim>\<open>Inject\<close> writes into the metadata map itself, which the caller
  shares when the map came from the caller's context; the map is a value here, and
  nothing below is about the caller's map.
\<close>

datatype CallOption = grpc_Peer | grpc_CallOption string

record peer_Peer =
  Addr :: "string option"

definition client_config :: "InterceptorOption list \<Rightarrow> interceptorConfig" where
  "client_config opts =
     (let cfg = apply_options opts (defaults new_interceptorConfig)
      in if serviceName cfg = [] then cfg\<lparr>serviceName := ''grpc.client''\<rparr> else cfg)"

definition UnaryClientInterceptor ::
  "InterceptorOption list \<Rightarrow>
   Context \<Rightarrow> string \<Rightarrow> 'req \<Rightarrow> 'cc \<Rightarrow>
   (Context \<Rightarrow> string \<Rightarrow> 'req \<Rightarrow> 'cc \<Rightarrow> CallOption list \<Rightarrow> ('reply \<times> peer_Peer) call_result) \<Rightarrow>
   CallOption list \<Rightarrow> Tracer \<Rightarrow> 'reply call_result \<times> Tracer" where
  "UnaryClientInterceptor opts =
     (let cfg = client_config opts
      in (\<lambda>ctx method req cc invoker callopts tr.
            (let spanopts = spanOpts cfg;
                 spanopts = spanopts @
                   [tracer_Tag tagMethod (StrV method),
                    tracer_SpanType ext_AppTypeRPC,
                    tracer_Tag ext_Component (StrV ''google.golang.org/grpc.v12''),
                    tracer_Tag ext_SpanKind (StrV ext_SpanKindClient)];
                 (span, ctx, tr) = tracer_StartSpanFromContext ctx ''grpc.client'' spanopts tr;
                 (md, ok) = metadata_FromContext ctx;
                 md = (if \<not> ok then Map.empty else md);
                 md = tracer_Inject (span_Context (spans tr ! span)) md;
                 ctx = metadata_NewContext ctx md;
                 callopts = callopts @ [grpc_Peer]
             in case invoker ctx method req cc callopts of
                  Panicked pv \<Rightarrow> (Panicked pv, tr)
                | Returned (reply, p) err \<Rightarrow>
                    (let tr = (case Addr p of
                                 None \<Rightarrow> tr
                               | Some addr \<Rightarrow>
                                   (case SplitHostPort addr of
                                      Inl err1 \<Rightarrow> tr
                                    | Inr (host, port) \<Rightarrow>
                                        (let tr = (if host \<noteq> []
                                                   then span_SetTag span ext_TargetHost (StrV host) tr
                                                   else tr)
                                         in span_SetTag span ext_TargetPort (StrV port) tr)));
                         tr = span_SetTag span tagCode (StrV (Code_String (grpc_Code err))) tr;
                         tr = span_Finish span [tracer_WithError err] tr
                     in (Returned reply err, tr)))))"

section \<open>The option slice in the store\<close>

text \<open>
  Lines 53 to 67 of grpc.go on Go slices. A slice is a window (offset, length, capacity)
  on a backing array; the store is the list of all backing arrays, an array's address
  being its position. A cell holds \<open>None\<close> for the nil function, the zero value that
  \<^verbatim>\<open>make\<close> writes. \<^verbatim>\<open>append\<close> writes in place when the capacity suffices and moves the
  elements to a new array otherwise; the capacity of the new array is at least what is
  needed, and \<open>grow\<close> stands for whatever larger capacity the runtime may pick.
\<close>

record slice =
  s_array :: nat
  s_off :: nat
  s_len :: nat
  s_cap :: nat

type_synonym 'a store = "'a option list list"

definition slice_elems :: "'a store \<Rightarrow> slice \<Rightarrow> 'a option list" where
  "slice_elems st s = take (s_len s) (drop (s_off s) (st ! s_array s))"

definition write_at :: "'a list \<Rightarrow> nat \<Rightarrow> 'a list \<Rightarrow> 'a list" where
  "write_at xs i ys = take i xs @ ys @ drop (i + length ys) xs"

definition go_make :: "nat \<Rightarrow> nat \<Rightarrow> 'a store \<Rightarrow> slice \<times> 'a store" where
  "go_make n c st =
     (\<lparr>s_array = length st, s_off = 0, s_len = n, s_cap = c\<rparr>, st @ [replicate c None])"

definition go_copy :: "slice \<Rightarrow> slice \<Rightarrow> 'a store \<Rightarrow> 'a store" where
  "go_copy dst src st =
     (let n = min (s_len dst) (s_len src)
      in st[s_array dst := write_at (st ! s_array dst) (s_off dst) (take n (slice_elems st src))])"

definition go_append :: "(nat \<Rightarrow> nat \<Rightarrow> nat) \<Rightarrow> slice \<Rightarrow> 'a list \<Rightarrow> 'a store \<Rightarrow> slice \<times> 'a store" where
  "go_append grow s ys st =
     (let need = s_len s + length ys
      in if need \<le> s_cap s
         then (s\<lparr>s_len := need\<rparr>,
               st[s_array s := write_at (st ! s_array s) (s_off s + s_len s) (map Some ys)])
         else (let c = max need (grow (s_cap s) need)
               in (\<lparr>s_array = length st, s_off = 0, s_len = need, s_cap = c\<rparr>,
                   st @ [slice_elems st s @ map Some ys @ replicate (c - need) None])))"

definition startSpanFromContext_optsLocal ::
  "(nat \<Rightarrow> nat \<Rightarrow> nat) \<Rightarrow> Context \<Rightarrow> string \<Rightarrow> string \<Rightarrow> slice \<Rightarrow>
   StartSpanOption store \<Rightarrow> slice \<times> StartSpanOption store" where
  "startSpanFromContext_optsLocal grow ctx method service opts st =
     (let (optsLocal, st) = go_make (s_len opts) (s_len opts + 6) st;
          st = go_copy optsLocal opts st;
          (optsLocal, st) = go_append grow optsLocal
            [tracer_ServiceName service,
             tracer_ResourceName method,
             tracer_Tag tagMethod (StrV method),
             tracer_SpanType ext_AppTypeRPC,
             tracer_Measured,
             tracer_Tag ext_Component (StrV ''google.golang.org/grpc.v12''),
             tracer_Tag ext_SpanKind (StrV ext_SpanKindServer)] st;
          (md, ok) = metadata_FromContext ctx
      in case tracer_Extract md of
           Inr sctx \<Rightarrow> go_append grow optsLocal [tracer_ChildOf sctx] st
         | Inl err \<Rightarrow> (optsLocal, st))"

text \<open>
  A slice is well formed in a store when its array exists and its window lies inside the
  array; every slice a Go program holds is.
\<close>

definition slice_ok :: "'a store \<Rightarrow> slice \<Rightarrow> bool" where
  "slice_ok st s =
     (s_array s < length st \<and> s_len s \<le> s_cap s \<and> s_off s + s_cap s \<le> length (st ! s_array s))"

section \<open>The SQL adapter\<close>

text \<open>
  Modelled from the spec: \<^verbatim>\<open>Register\<close>, the table of registered drivers and the
  configuration of the SQL adapter are not under src/ (only the tests of the package
  are). The spec, section 3 and 4.1: an entry maps a driver name to the wrapped driver
  and its static configuration (service name, analytics rate, DSN); a second call with
  the same name is a no-op that neither panics nor replaces the entry. The tests read
  the service name \<^verbatim>\<open>name.db\<close> and no analytics rate when no option is given. The
  rate is a floating-point number, whose type is left open here.
\<close>

record 'r config =
  cfg_serviceName :: string
  cfg_analyticsRate :: "'r option"
  cfg_dsn :: string

definition sql_defaults :: "string \<Rightarrow> 'r config" where
  "sql_defaults driverName =
     \<lparr>cfg_serviceName = driverName @ ''.db'', cfg_analyticsRate = None, cfg_dsn = []\<rparr>"

definition Register ::
  "string \<Rightarrow> 'drv \<Rightarrow> ('r config \<Rightarrow> 'r config) list \<Rightarrow>
   (string \<rightharpoonup> 'drv \<times> 'r config) \<Rightarrow> (string \<rightharpoonup> 'drv \<times> 'r config)" where
  "Register driverName driver opts registeredDrivers =
     (case registeredDrivers driverName of
        Some entry \<Rightarrow> registeredDrivers
      | None \<Rightarrow>
          registeredDrivers(driverName \<mapsto> (driver, apply_options opts (sql_defaults driverName))))"

text \<open>
  Modelled from the spec: \<^verbatim>\<open>tracedConnector.Connect\<close> is not under src/ (the test
  \<^verbatim>\<open>TestConnectCancelledCtx\<close> builds a \<^verbatim>\<open>tracedConnector\<close> and calls it). The spec,
  section 4.1: connecting is wrapped with one span that is tagged with the operation
  type and finished with the error of the attempt, a cancellation included; the error of
  the underlying driver reaches the caller unchanged. The test reads the operation name
  \<^verbatim>\<open>driverName.query\<close> and the tag \<^verbatim>\<open>sql.query_type\<close> with value \<^verbatim>\<open>Connect\<close>.
\<close>

record ('conn, 'r) tracedConnector =
  connector :: "Context \<Rightarrow> 'conn call_result"
  driverName :: string
  cfg :: "'r config"

definition tracedConnector_Connect ::
  "('conn, 'r) tracedConnector \<Rightarrow> Context \<Rightarrow> Tracer \<Rightarrow> 'conn call_result \<times> Tracer" where
  "tracedConnector_Connect tc ctx tr =
     (let (span, ctx1, tr) =
            tracer_StartSpanFromContext ctx (driverName tc @ ''.query'')
              [tracer_ServiceName (cfg_serviceName (cfg tc)),
               tracer_Tag ''sql.query_type'' (StrV ''Connect'')] tr
      in case connector tc ctx of
           Panicked p \<Rightarrow> (Panicked p, tr)
         | Returned conn err \<Rightarrow>
             (let tr = span_Finish span [tracer_WithError err] tr
              in (Returned conn err, tr)))"

section \<open>Notions used to state the properties\<close>


text \<open>
  The service name the spec describes: of the sources in the order per-call option,
  construction-time option, global default, fallback, the first one that is set.
\<close>

definition spec_service_name :: "string \<Rightarrow> string \<Rightarrow> string \<Rightarrow> string \<Rightarrow> string" where
  "spec_service_name perCall constructed globalDefault fallback =
     (if perCall \<noteq> [] then perCall
      else if constructed \<noteq> [] then constructed
      else if globalDefault \<noteq> [] then globalDefault
      else fallback)"

text \<open>
  A client call served by the server interceptor, as in the tests, where client and
  server run in one process: the server receives a context that holds the metadata the
  client sent and no span, and the invoker's reply is the server's outcome together
  with the server's tracer state, so that the spans of both sides can be compared. The
  client sees the handler's error; a handler that panics is shown to the client as an
  error of code Unknown.
\<close>

definition inbound_context :: "Context \<Rightarrow> Context" where
  "inbound_context ctx = \<lparr>ctx_span = None, ctx_md = ctx_md ctx, ctx_done = ctx_done ctx\<rparr>"

definition result_error :: "'a call_result \<Rightarrow> error option" where
  "result_error r =
     (case r of Returned v err \<Rightarrow> err | Panicked p \<Rightarrow> Some (RpcError Unknown p))"

definition serve ::
  "string \<Rightarrow> InterceptorOption list \<Rightarrow> (Context \<Rightarrow> 'req \<Rightarrow> 'resp call_result) \<Rightarrow> Tracer \<Rightarrow>
   string option \<Rightarrow>
   Context \<Rightarrow> string \<Rightarrow> 'req \<Rightarrow> 'cc \<Rightarrow> CallOption list \<Rightarrow>
   (('resp call_result \<times> Tracer) \<times> peer_Peer) call_result" where
  "serve globalServiceName opts handler serverTracer addr =
     (\<lambda>ctx method req cc callopts.
        (let r = UnaryServerInterceptor globalServiceName opts (inbound_context ctx) req
                   \<lparr>FullMethod = method\<rparr> handler serverTracer
         in Returned (r, \<lparr>Addr = addr\<rparr>) (result_error (fst r))))"

text \<open>
  The tracer state after a span \<open>s\<close> was started, and after it was started and then
  finished with an error: Finish adds the error tag for a non-nil error.
\<close>

definition started :: "Tracer \<Rightarrow> Span \<Rightarrow> Tracer" where
  "started tr s = tr\<lparr>next_id := next_id tr + 1, spans := spans tr @ [s]\<rparr>"

definition finish_tags :: "(string \<rightharpoonup> tag_value) \<Rightarrow> error option \<Rightarrow> (string \<rightharpoonup> tag_value)" where
  "finish_tags tags err = (case err of None \<Rightarrow> tags | Some e \<Rightarrow> tags(ext_Error \<mapsto> ErrV e))"

definition completed :: "Tracer \<Rightarrow> Span \<Rightarrow> error option \<Rightarrow> Tracer" where
  "completed tr s err =
     tr\<lparr>next_id := next_id tr + 1,
        spans := spans tr @ [s\<lparr>span_Tags := finish_tags (span_Tags s) err\<rparr>],
        finished := finished tr @ [(length (spans tr), err)]\<rparr>"

text \<open>The tags the client interceptor sets from the peer address after the call.\<close>

definition peer_tags :: "(string \<rightharpoonup> tag_value) \<Rightarrow> string option \<Rightarrow> (string \<rightharpoonup> tag_value)" where
  "peer_tags tags a =
     (case a of
        None \<Rightarrow> tags
      | Some addr \<Rightarrow>
          (case SplitHostPort addr of
             Inl e \<Rightarrow> tags
           | Inr (host, port) \<Rightarrow>
               (if host \<noteq> [] then tags(ext_TargetHost \<mapsto> StrV host) else tags)
                 (ext_TargetPort \<mapsto> StrV port)))"

section \<open>Example calls\<close>

text \<open>
  Concrete inputs on which the theorems below are instantiated: a tracer that has
  started nothing yet, a context that was cancelled, a handler and an invoker that fail
  with the cancellation error exactly when their context is done, and a connector that
  gives up with an error, as \<^verbatim>\<open>hangingConnector\<close> of the tests does once its context
  is cancelled.
\<close>

definition example_tracer :: Tracer where
  "example_tracer = \<lparr>next_id = 1, spans = [], finished = []\<rparr>"

definition background_context :: Context where
  "background_context = \<lparr>ctx_span = None, ctx_md = None, ctx_done = False\<rparr>"

definition cancelled_context :: Context where
  "cancelled_context = \<lparr>ctx_span = None, ctx_md = None, ctx_done = True\<rparr>"

definition cancelled_error :: error where
  "cancelled_error = RpcError Canceled ''context canceled''"

definition example_handler :: "Context \<Rightarrow> unit \<Rightarrow> unit call_result" where
  "example_handler ctx req = Returned () (if ctx_done ctx then Some cancelled_error else None)"

definition example_invoker ::
  "string \<Rightarrow> Context \<Rightarrow> string \<Rightarrow> unit \<Rightarrow> unit \<Rightarrow> CallOption list \<Rightarrow> (unit \<times> peer_Peer) call_result" where
  "example_invoker addr ctx method req cc callopts =
     Returned ((), \<lparr>Addr = Some addr\<rparr>) (if ctx_done ctx then Some cancelled_error else None)"

definition example_connector :: "(unit, unit) tracedConnector" where
  "example_connector =
     \<lparr>connector = (\<lambda>ctx. Returned () (Some (PlainError ''context cancelled''))),
      driverName = ''hangingConnector'',
      cfg = \<lparr>cfg_serviceName = [], cfg_analyticsRate = None, cfg_dsn = []\<rparr>\<rparr>"

definition inbound_example :: Context where
  "inbound_example =
     \<lparr>ctx_span = None,
      ctx_md = Some [traceIDHeader \<mapsto> [''3''], parentIDHeader \<mapsto> [''4'']],
      ctx_done = False\<rparr>"

definition example_options :: "InterceptorOption list" where
  "example_options = [WithServiceName ''grpc-service'', WithSpanOptions [tracer_Tag ''foo'' (StrV ''bar'')]]"

definition example_info :: UnaryServerInfo where
  "example_info = \<lparr>FullMethod = ''/grpc.Fixture/Ping''\<rparr>"

text \<open>
  A store with one backing array of two cells, and the caller's slice on it: one option
  and one cell of spare capacity, the case in which an append made directly on the
  caller's slice would write into the caller's array.
\<close>

definition example_store :: "StartSpanOption store" where
  "example_store = [[Some (tracer_Tag ''foo'' (StrV ''bar'')), None]]"

definition example_slice :: slice where
  "example_slice = \<lparr>s_array = 0, s_off = 0, s_len = 1, s_cap = 2\<rparr>"

definition double_capacity :: "nat \<Rightarrow> nat \<Rightarrow> nat" where
  "double_capacity c need = 2 * c"

text \<open>The options of the SQL adapter that the tests use.\<close>

definition sql_WithServiceName :: "string \<Rightarrow> 'r config \<Rightarrow> 'r config" where
  "sql_WithServiceName name = (\<lambda>c. c\<lparr>cfg_serviceName := name\<rparr>)"

definition sql_WithAnalyticsRate :: "'r \<Rightarrow> 'r config \<Rightarrow> 'r config" where
  "sql_WithAnalyticsRate rate = (\<lambda>c. c\<lparr>cfg_analyticsRate := Some rate\<rparr>)"

definition sql_WithDSN :: "string \<Rightarrow> 'r config \<Rightarrow> 'r config" where
  "sql_WithDSN name = (\<lambda>c. c\<lparr>cfg_dsn := name\<rparr>)"

section \<open>Facts about the tracer\<close>

lemmas tag_names =
  ext_ServiceName_def ext_ResourceName_def ext_SpanType_def ext_Error_def ext_Component_def
  ext_SpanKind_def ext_SpanKindServer_def ext_SpanKindClient_def ext_AppTypeRPC_def
  ext_TargetHost_def ext_TargetPort_def keyMeasured_def tagMethod_def tagCode_def

lemma apply_options_Nil [simp]: "apply_options [] c = c"
  by (simp add: apply_options_def)

lemma apply_options_Cons [simp]: "apply_options (f # fs) c = apply_options fs (f c)"
  by (simp add: apply_options_def)

lemma apply_options_append [simp]:
  "apply_options (xs @ ys) c = apply_options ys (apply_options xs c)"
  by (simp add: apply_options_def)

lemma Tag_Tags [simp]: "cfg_Tags (tracer_Tag k v c) = (cfg_Tags c)(k \<mapsto> v)"
  by (simp add: tracer_Tag_def)

lemma Tag_Parent [simp]: "cfg_Parent (tracer_Tag k v c) = cfg_Parent c"
  by (simp add: tracer_Tag_def)

lemma ChildOf_Tags [simp]: "cfg_Tags (tracer_ChildOf p c) = cfg_Tags c"
  by (simp add: tracer_ChildOf_def)

lemma ChildOf_Parent [simp]: "cfg_Parent (tracer_ChildOf p c) = Some p"
  by (simp add: tracer_ChildOf_def)

lemmas tag_options =
  tracer_ServiceName_def tracer_ResourceName_def tracer_SpanType_def tracer_Measured_def

lemma context_options_Tags [simp]:
  "cfg_Tags (apply_options (context_options ctx opts) c) = cfg_Tags (apply_options opts c)"
  by (simp add: context_options_def split: option.splits)

lemma context_options_Parent:
  "cfg_Parent (apply_options (context_options ctx opts) c) =
     (case ctx_span ctx of None \<Rightarrow> cfg_Parent (apply_options opts c) | Some p \<Rightarrow> Some p)"
  by (simp add: context_options_def split: option.splits)

lemma StartSpanFromContext_eq:
  "tracer_StartSpanFromContext ctx name opts tr =
     (let s = newSpan name (apply_options (context_options ctx opts) new_StartSpanConfig) (next_id tr)
      in (length (spans tr), ctx\<lparr>ctx_span := Some (span_Context s)\<rparr>,
          tr\<lparr>next_id := next_id tr + 1, spans := spans tr @ [s]\<rparr>))"
  by (simp add: tracer_StartSpanFromContext_def tracer_StartSpan_def Let_def)

lemma SetTag_last:
  "span_SetTag (length xs) k v (tr\<lparr>spans := xs @ [s]\<rparr>) =
     tr\<lparr>spans := xs @ [s\<lparr>span_Tags := (span_Tags s)(k \<mapsto> v)\<rparr>]\<rparr>"
  by (simp add: span_SetTag_def)

lemma Finish_last:
  "span_Finish (length xs) [tracer_WithError err] (tr\<lparr>spans := xs @ [s]\<rparr>) =
     tr\<lparr>spans := xs @ [s\<lparr>span_Tags :=
              (case err of None \<Rightarrow> span_Tags s | Some e \<Rightarrow> (span_Tags s)(ext_Error \<mapsto> ErrV e))\<rparr>],
        finished := finished tr @ [(length xs, err)]\<rparr>"
  by (cases err) (simp_all add: span_Finish_def tracer_WithError_def SetTag_last Let_def)


section \<open>What one call of each interceptor does\<close>

lemma startSpanFromContext_eq:
  "\<exists>c. startSpanFromContext ctx method service opts tr =
         (length (spans tr),
          ctx\<lparr>ctx_span := Some (span_Context (newSpan ''grpc.server'' c (next_id tr)))\<rparr>,
          tr\<lparr>next_id := next_id tr + 1, spans := spans tr @ [newSpan ''grpc.server'' c (next_id tr)]\<rparr>) \<and>
       cfg_Tags c = (cfg_Tags (apply_options opts new_StartSpanConfig))
          (ext_ServiceName \<mapsto> StrV service,
           ext_ResourceName \<mapsto> StrV method,
           tagMethod \<mapsto> StrV method,
           ext_SpanType \<mapsto> StrV ext_AppTypeRPC,
           keyMeasured \<mapsto> NumV 1,
           ext_Component \<mapsto> StrV ''google.golang.org/grpc.v12'',
           ext_SpanKind \<mapsto> StrV ext_SpanKindServer) \<and>
       cfg_Parent c =
         (case ctx_span ctx of
            Some p \<Rightarrow> Some p
          | None \<Rightarrow>
              (case tracer_Extract (fst (metadata_FromContext ctx)) of
                 Inr sctx \<Rightarrow> Some sctx
               | Inl e \<Rightarrow> cfg_Parent (apply_options opts new_StartSpanConfig)))"
proof (cases "tracer_Extract (fst (metadata_FromContext ctx))")
  case (Inl e)
  let ?os = "opts @
            [tracer_ServiceName service,
             tracer_ResourceName method,
             tracer_Tag tagMethod (StrV method),
             tracer_SpanType ext_AppTypeRPC,
             tracer_Measured,
             tracer_Tag ext_Component (StrV ''google.golang.org/grpc.v12''),
             tracer_Tag ext_SpanKind (StrV ext_SpanKindServer)]"
  let ?c = "apply_options (context_options ctx ?os) new_StartSpanConfig"
  have run: "startSpanFromContext ctx method service opts tr =
         (length (spans tr),
          ctx\<lparr>ctx_span := Some (span_Context (newSpan ''grpc.server'' ?c (next_id tr)))\<rparr>,
          tr\<lparr>next_id := next_id tr + 1, spans := spans tr @ [newSpan ''grpc.server'' ?c (next_id tr)]\<rparr>)"
    using Inl by (simp add: startSpanFromContext_def StartSpanFromContext_eq Let_def split_def)
  have tags: "cfg_Tags ?c = (cfg_Tags (apply_options opts new_StartSpanConfig))
          (ext_ServiceName \<mapsto> StrV service,
           ext_ResourceName \<mapsto> StrV method,
           tagMethod \<mapsto> StrV method,
           ext_SpanType \<mapsto> StrV ext_AppTypeRPC,
           keyMeasured \<mapsto> NumV 1,
           ext_Component \<mapsto> StrV ''google.golang.org/grpc.v12'',
           ext_SpanKind \<mapsto> StrV ext_SpanKindServer)"
    by (simp add: tag_options)
  have parent: "cfg_Parent ?c = (case ctx_span ctx of
            Some p \<Rightarrow> Some p
          | None \<Rightarrow> cfg_Parent (apply_options opts new_StartSpanConfig))"
    by (simp add: context_options_Parent tag_options split: option.splits)
  have parent': "cfg_Parent ?c =
         (case ctx_span ctx of
            Some p \<Rightarrow> Some p
          | None \<Rightarrow>
              (case tracer_Extract (fst (metadata_FromContext ctx)) of
                 Inr sctx \<Rightarrow> Some sctx
               | Inl e \<Rightarrow> cfg_Parent (apply_options opts new_StartSpanConfig)))"
    unfolding parent Inl by (simp split: option.splits)
  from run tags parent' show ?thesis by blast
next
  case (Inr sctx)
  let ?os = "opts @
            [tracer_ServiceName service,
             tracer_ResourceName method,
             tracer_Tag tagMethod (StrV method),
             tracer_SpanType ext_AppTypeRPC,
             tracer_Measured,
             tracer_Tag ext_Component (StrV ''google.golang.org/grpc.v12''),
             tracer_Tag ext_SpanKind (StrV ext_SpanKindServer)] @ [tracer_ChildOf sctx]"
  let ?c = "apply_options (context_options ctx ?os) new_StartSpanConfig"
  have run: "startSpanFromContext ctx method service opts tr =
         (length (spans tr),
          ctx\<lparr>ctx_span := Some (span_Context (newSpan ''grpc.server'' ?c (next_id tr)))\<rparr>,
          tr\<lparr>next_id := next_id tr + 1, spans := spans tr @ [newSpan ''grpc.server'' ?c (next_id tr)]\<rparr>)"
    using Inr by (simp add: startSpanFromContext_def StartSpanFromContext_eq Let_def split_def)
  have tags: "cfg_Tags ?c = (cfg_Tags (apply_options opts new_StartSpanConfig))
          (ext_ServiceName \<mapsto> StrV service,
           ext_ResourceName \<mapsto> StrV method,
           tagMethod \<mapsto> StrV method,
           ext_SpanType \<mapsto> StrV ext_AppTypeRPC,
           keyMeasured \<mapsto> NumV 1,
           ext_Component \<mapsto> StrV ''google.golang.org/grpc.v12'',
           ext_SpanKind \<mapsto> StrV ext_SpanKindServer)"
    by (simp add: tag_options)
  have parent: "cfg_Parent ?c = (case ctx_span ctx of
            Some p \<Rightarrow> Some p
          | None \<Rightarrow> Some sctx)"
    by (simp add: context_options_Parent tag_options split: option.splits)
  have parent': "cfg_Parent ?c =
         (case ctx_span ctx of
            Some p \<Rightarrow> Some p
          | None \<Rightarrow>
              (case tracer_Extract (fst (metadata_FromContext ctx)) of
                 Inr sctx \<Rightarrow> Some sctx
               | Inl e \<Rightarrow> cfg_Parent (apply_options opts new_StartSpanConfig)))"
    unfolding parent Inr by (simp split: option.splits)
  from run tags parent' show ?thesis by blast
qed


lemma server_call:
  obtains c where
    "cfg_Tags c = (cfg_Tags (apply_options (spanOpts (server_config g opts)) new_StartSpanConfig))
          (ext_ServiceName \<mapsto> StrV (serviceName (server_config g opts)),
           ext_ResourceName \<mapsto> StrV (FullMethod info),
           tagMethod \<mapsto> StrV (FullMethod info),
           ext_SpanType \<mapsto> StrV ext_AppTypeRPC,
           keyMeasured \<mapsto> NumV 1,
           ext_Component \<mapsto> StrV ''google.golang.org/grpc.v12'',
           ext_SpanKind \<mapsto> StrV ext_SpanKindServer)"
    and "cfg_Parent c =
         (case ctx_span ctx of
            Some p \<Rightarrow> Some p
          | None \<Rightarrow>
              (case tracer_Extract (fst (metadata_FromContext ctx)) of
                 Inr sctx \<Rightarrow> Some sctx
               | Inl e \<Rightarrow> cfg_Parent (apply_options (spanOpts (server_config g opts)) new_StartSpanConfig)))"
    and "UnaryServerInterceptor g opts ctx req info handler tr =
         (case handler (ctx\<lparr>ctx_span := Some (span_Context (newSpan ''grpc.server'' c (next_id tr)))\<rparr>) req of
            Panicked p \<Rightarrow> (Panicked p, started tr (newSpan ''grpc.server'' c (next_id tr)))
          | Returned resp err \<Rightarrow>
              (Returned resp err, completed tr (newSpan ''grpc.server'' c (next_id tr)) err))"
proof -
  obtain c where
    run: "startSpanFromContext ctx (FullMethod info) (serviceName (server_config g opts))
            (spanOpts (server_config g opts)) tr =
         (length (spans tr),
          ctx\<lparr>ctx_span := Some (span_Context (newSpan ''grpc.server'' c (next_id tr)))\<rparr>,
          tr\<lparr>next_id := next_id tr + 1, spans := spans tr @ [newSpan ''grpc.server'' c (next_id tr)]\<rparr>)"
    and tags: "cfg_Tags c = (cfg_Tags (apply_options (spanOpts (server_config g opts)) new_StartSpanConfig))
          (ext_ServiceName \<mapsto> StrV (serviceName (server_config g opts)),
           ext_ResourceName \<mapsto> StrV (FullMethod info),
           tagMethod \<mapsto> StrV (FullMethod info),
           ext_SpanType \<mapsto> StrV ext_AppTypeRPC,
           keyMeasured \<mapsto> NumV 1,
           ext_Component \<mapsto> StrV ''google.golang.org/grpc.v12'',
           ext_SpanKind \<mapsto> StrV ext_SpanKindServer)"
    and parent: "cfg_Parent c =
         (case ctx_span ctx of
            Some p \<Rightarrow> Some p
          | None \<Rightarrow>
              (case tracer_Extract (fst (metadata_FromContext ctx)) of
                 Inr sctx \<Rightarrow> Some sctx
               | Inl e \<Rightarrow> cfg_Parent (apply_options (spanOpts (server_config g opts)) new_StartSpanConfig)))"
    using startSpanFromContext_eq by blast
  have call: "UnaryServerInterceptor g opts ctx req info handler tr =
         (case handler (ctx\<lparr>ctx_span := Some (span_Context (newSpan ''grpc.server'' c (next_id tr)))\<rparr>) req of
            Panicked p \<Rightarrow> (Panicked p, started tr (newSpan ''grpc.server'' c (next_id tr)))
          | Returned resp err \<Rightarrow>
              (Returned resp err, completed tr (newSpan ''grpc.server'' c (next_id tr)) err))"
    unfolding UnaryServerInterceptor_def started_def completed_def finish_tags_def
    by (simp add: run Let_def Finish_last [where tr = "tr\<lparr>next_id := Suc (next_id tr)\<rparr>" and xs = "spans tr", simplified]
        split: call_result.splits)
  from tags parent call show thesis by (rule that)
qed

lemma client_call:
  obtains c where
    "cfg_Tags c = (cfg_Tags (apply_options (spanOpts (client_config opts)) new_StartSpanConfig))
          (tagMethod \<mapsto> StrV method,
           ext_SpanType \<mapsto> StrV ext_AppTypeRPC,
           ext_Component \<mapsto> StrV ''google.golang.org/grpc.v12'',
           ext_SpanKind \<mapsto> StrV ext_SpanKindClient)"
    and "cfg_Parent c =
         (case ctx_span ctx of
            Some p \<Rightarrow> Some p
          | None \<Rightarrow> cfg_Parent (apply_options (spanOpts (client_config opts)) new_StartSpanConfig))"
    and "UnaryClientInterceptor opts ctx method req cc invoker callopts tr =
         (let s = newSpan ''grpc.client'' c (next_id tr);
              md = tracer_Inject (span_Context s) (case ctx_md ctx of None \<Rightarrow> Map.empty | Some m \<Rightarrow> m)
          in case invoker (ctx\<lparr>ctx_span := Some (span_Context s), ctx_md := Some md\<rparr>) method req cc
                    (callopts @ [grpc_Peer]) of
               Panicked pv \<Rightarrow> (Panicked pv, started tr s)
             | Returned (reply, p) err \<Rightarrow>
                 (Returned reply err,
                  completed tr
                    (s\<lparr>span_Tags := (peer_tags (span_Tags s) (Addr p))
                          (tagCode \<mapsto> StrV (Code_String (grpc_Code err)))\<rparr>) err))"
proof -
  let ?os = "spanOpts (client_config opts) @
                   [tracer_Tag tagMethod (StrV method),
                    tracer_SpanType ext_AppTypeRPC,
                    tracer_Tag ext_Component (StrV ''google.golang.org/grpc.v12''),
                    tracer_Tag ext_SpanKind (StrV ext_SpanKindClient)]"
  let ?c = "apply_options (context_options ctx ?os) new_StartSpanConfig"
  let ?tr = "tr\<lparr>next_id := Suc (next_id tr)\<rparr>"
  have tags: "cfg_Tags ?c = (cfg_Tags (apply_options (spanOpts (client_config opts)) new_StartSpanConfig))
          (tagMethod \<mapsto> StrV method,
           ext_SpanType \<mapsto> StrV ext_AppTypeRPC,
           ext_Component \<mapsto> StrV ''google.golang.org/grpc.v12'',
           ext_SpanKind \<mapsto> StrV ext_SpanKindClient)"
    by (simp add: tag_options)
  have parent: "cfg_Parent ?c =
         (case ctx_span ctx of
            Some p \<Rightarrow> Some p
          | None \<Rightarrow> cfg_Parent (apply_options (spanOpts (client_config opts)) new_StartSpanConfig))"
    by (simp add: context_options_Parent tag_options split: option.splits)
  have call: "UnaryClientInterceptor opts ctx method req cc invoker callopts tr =
         (let s = newSpan ''grpc.client'' ?c (next_id tr);
              md = tracer_Inject (span_Context s) (case ctx_md ctx of None \<Rightarrow> Map.empty | Some m \<Rightarrow> m)
          in case invoker (ctx\<lparr>ctx_span := Some (span_Context s), ctx_md := Some md\<rparr>) method req cc
                    (callopts @ [grpc_Peer]) of
               Panicked pv \<Rightarrow> (Panicked pv, started tr s)
             | Returned (reply, p) err \<Rightarrow>
                 (Returned reply err,
                  completed tr
                    (s\<lparr>span_Tags := (peer_tags (span_Tags s) (Addr p))
                          (tagCode \<mapsto> StrV (Code_String (grpc_Code err)))\<rparr>) err))"
    unfolding UnaryClientInterceptor_def started_def completed_def finish_tags_def peer_tags_def
    by (simp add: StartSpanFromContext_eq Let_def metadata_FromContext_def metadata_NewContext_def
        SetTag_last [where tr = ?tr and xs = "spans tr", simplified]
        Finish_last [where tr = ?tr and xs = "spans tr", simplified]
        split: call_result.splits option.splits sum.splits prod.splits)
  from tags parent call show thesis by (rule that)
qed

lemma Connect_call:
  obtains s where
    "span_OperationName s = driverName tc @ ''.query''"
    and "span_Tags s ''sql.query_type'' = Some (StrV ''Connect'')"
    and "span_Tags s ext_Error = None"
    and "tracedConnector_Connect tc ctx tr =
         (case connector tc ctx of
            Panicked p \<Rightarrow> (Panicked p, started tr s)
          | Returned conn err \<Rightarrow> (Returned conn err, completed tr s err))"
proof -
  let ?c = "apply_options (context_options ctx
              [tracer_ServiceName (cfg_serviceName (cfg tc)),
               tracer_Tag ''sql.query_type'' (StrV ''Connect'')]) new_StartSpanConfig"
  let ?s = "newSpan (driverName tc @ ''.query'') ?c (next_id tr)"
  have name: "span_OperationName ?s = driverName tc @ ''.query''"
    by (simp add: newSpan_def)
  have qtype: "span_Tags ?s ''sql.query_type'' = Some (StrV ''Connect'')"
    by (simp add: newSpan_def tag_options)
  have noerr: "span_Tags ?s ext_Error = None"
    by (simp add: newSpan_def tag_options tag_names new_StartSpanConfig_def)
  have call: "tracedConnector_Connect tc ctx tr =
         (case connector tc ctx of
            Panicked p \<Rightarrow> (Panicked p, started tr ?s)
          | Returned conn err \<Rightarrow> (Returned conn err, completed tr ?s err))"
    unfolding tracedConnector_Connect_def started_def completed_def finish_tags_def
    by (simp add: StartSpanFromContext_eq Let_def
        Finish_last [where tr = "tr\<lparr>next_id := Suc (next_id tr)\<rparr>" and xs = "spans tr", simplified]
        split: call_result.splits)
  from name qtype noerr call show thesis by (rule that)
qed


lemma completed_nth:
  "spans (completed tr s err) ! length (spans tr) = s\<lparr>span_Tags := finish_tags (span_Tags s) err\<rparr>"
  by (simp add: completed_def)

lemma started_nth: "spans (started tr s) ! length (spans tr) = s"
  by (simp add: started_def)

lemma started_length: "length (spans (started tr s)) = length (spans tr) + 1"
  by (simp add: started_def)

lemma completed_length: "length (spans (completed tr s err)) = length (spans tr) + 1"
  by (simp add: completed_def)

lemma started_finished: "finished (started tr s) = finished tr"
  by (simp add: started_def)

lemma completed_finished: "finished (completed tr s err) = finished tr @ [(length (spans tr), err)]"
  by (simp add: completed_def)

lemma peer_tags_other:
  "k \<noteq> ext_TargetHost \<Longrightarrow> k \<noteq> ext_TargetPort \<Longrightarrow> peer_tags tags a k = tags k"
  by (simp add: peer_tags_def split: option.splits sum.splits prod.splits)


lemma finish_tags_other: "k \<noteq> ext_Error \<Longrightarrow> finish_tags tags err k = tags k"
  by (simp add: finish_tags_def split: option.splits)


lemma tagCode_not_error: "tagCode \<noteq> ext_Error" "ext_Error \<noteq> tagCode"
  by (simp_all add: tag_names)


lemma Inject_other_keys:
  "k \<noteq> traceIDHeader \<Longrightarrow> k \<noteq> parentIDHeader \<Longrightarrow> tracer_Inject sctx md k = md k"
  by (simp add: tracer_Inject_def MDCarrier_Set_def)

lemmas run_defs =
  UnaryServerInterceptor_def UnaryClientInterceptor_def tracedConnector_Connect_def
  startSpanFromContext_def tracer_StartSpanFromContext_def tracer_StartSpan_def
  metadata_FromContext_def metadata_NewContext_def context_options_def
  server_config_def client_config_def defaults_def new_interceptorConfig_def
  WithServiceName_def WithSpanOptions_def

lemmas example_defs =
  example_tracer_def background_context_def cancelled_context_def cancelled_error_def
  example_handler_def example_invoker_def example_connector_def example_options_def
  example_info_def inbound_example_def

section \<open>Span lifecycle\<close>




section \<open>Errors of the wrapped call\<close>

text \<open>
  C8. For every wrapped call (handler, invoker, driver connect) the adapter returns the
  outcome of the wrapped operation as it is: value, error and panic reach the caller
  unchanged. The wrapped operation is called with the caller's request and with the
  caller's context, to which only the new span is added (and, for the client, the two
  trace headers in the metadata, every other key of the caller's metadata being kept).
  What the adapter adds is the span around the call: exactly one span is started, the
  spans that existed are untouched, and when the wrapped operation returns, Finish is
  called once on that span with the operation's error, which is then recorded on the
  span as its error tag; when the wrapped operation panics, nothing is finished. The
  conjunct on connect rests on \<open>tracedConnector_Connect\<close>.
\<close>

theorem wrapped_errors_propagate_unchanged:
  "(let R = UnaryServerInterceptor g opts ctx req info handler tr;
        s = spans (snd R) ! length (spans tr)
    in fst R = handler (ctx\<lparr>ctx_span := Some (span_Context s)\<rparr>) req \<and>
       length (spans (snd R)) = length (spans tr) + 1 \<and>
       take (length (spans tr)) (spans (snd R)) = spans tr \<and>
       (\<forall>p. fst R = Panicked p \<longrightarrow> finished (snd R) = finished tr) \<and>
       (\<forall>resp err. fst R = Returned resp err \<longrightarrow>
          finished (snd R) = finished tr @ [(length (spans tr), err)] \<and>
          (\<forall>e. err = Some e \<longrightarrow> span_Tags s ext_Error = Some (ErrV e)))) \<and>
   (let R = UnaryClientInterceptor copts cctx fullMethod creq cc invoker callopts ctr;
        s = spans (snd R) ! length (spans ctr);
        md = tracer_Inject (span_Context s) (case ctx_md cctx of None \<Rightarrow> Map.empty | Some m \<Rightarrow> m);
        out = invoker (cctx\<lparr>ctx_span := Some (span_Context s), ctx_md := Some md\<rparr>) fullMethod creq cc
                (callopts @ [grpc_Peer])
    in fst R = (case out of Panicked pv \<Rightarrow> Panicked pv | Returned (reply, p) err \<Rightarrow> Returned reply err) \<and>
       (\<forall>k. k \<noteq> traceIDHeader \<and> k \<noteq> parentIDHeader \<longrightarrow>
          md k = (case ctx_md cctx of None \<Rightarrow> None | Some m \<Rightarrow> m k)) \<and>
       length (spans (snd R)) = length (spans ctr) + 1 \<and>
       take (length (spans ctr)) (spans (snd R)) = spans ctr \<and>
       (\<forall>p. fst R = Panicked p \<longrightarrow> finished (snd R) = finished ctr) \<and>
       (\<forall>reply err. fst R = Returned reply err \<longrightarrow>
          finished (snd R) = finished ctr @ [(length (spans ctr), err)] \<and>
          (\<forall>e. err = Some e \<longrightarrow> span_Tags s ext_Error = Some (ErrV e)))) \<and>
   (let R = tracedConnector_Connect tc dctx dtr;
        s = spans (snd R) ! length (spans dtr)
    in fst R = connector tc dctx \<and>
       length (spans (snd R)) = length (spans dtr) + 1 \<and>
       take (length (spans dtr)) (spans (snd R)) = spans dtr \<and>
       (\<forall>p. fst R = Panicked p \<longrightarrow> finished (snd R) = finished dtr) \<and>
       (\<forall>conn err. fst R = Returned conn err \<longrightarrow>
          finished (snd R) = finished dtr @ [(length (spans dtr), err)] \<and>
          (\<forall>e. err = Some e \<longrightarrow> span_Tags s ext_Error = Some (ErrV e))))"
proof (intro conjI)
  obtain c where
    "cfg_Tags c = (cfg_Tags (apply_options (spanOpts (server_config g opts)) new_StartSpanConfig))
          (ext_ServiceName \<mapsto> StrV (serviceName (server_config g opts)),
           ext_ResourceName \<mapsto> StrV (FullMethod info),
           tagMethod \<mapsto> StrV (FullMethod info),
           ext_SpanType \<mapsto> StrV ext_AppTypeRPC,
           keyMeasured \<mapsto> NumV 1,
           ext_Component \<mapsto> StrV ''google.golang.org/grpc.v12'',
           ext_SpanKind \<mapsto> StrV ext_SpanKindServer)"
    and "cfg_Parent c =
         (case ctx_span ctx of
            Some p \<Rightarrow> Some p
          | None \<Rightarrow>
              (case tracer_Extract (fst (metadata_FromContext ctx)) of
                 Inr sctx \<Rightarrow> Some sctx
               | Inl e \<Rightarrow> cfg_Parent (apply_options (spanOpts (server_config g opts)) new_StartSpanConfig)))"
    and call: "UnaryServerInterceptor g opts ctx req info handler tr =
         (case handler (ctx\<lparr>ctx_span := Some (span_Context (newSpan ''grpc.server'' c (next_id tr)))\<rparr>) req of
            Panicked p \<Rightarrow> (Panicked p, started tr (newSpan ''grpc.server'' c (next_id tr)))
          | Returned resp err \<Rightarrow>
              (Returned resp err, completed tr (newSpan ''grpc.server'' c (next_id tr)) err))"
    by (rule server_call)
  show "let R = UnaryServerInterceptor g opts ctx req info handler tr;
        s = spans (snd R) ! length (spans tr)
    in fst R = handler (ctx\<lparr>ctx_span := Some (span_Context s)\<rparr>) req \<and>
       length (spans (snd R)) = length (spans tr) + 1 \<and>
       take (length (spans tr)) (spans (snd R)) = spans tr \<and>
       (\<forall>p. fst R = Panicked p \<longrightarrow> finished (snd R) = finished tr) \<and>
       (\<forall>resp err. fst R = Returned resp err \<longrightarrow>
          finished (snd R) = finished tr @ [(length (spans tr), err)] \<and>
          (\<forall>e. err = Some e \<longrightarrow> span_Tags s ext_Error = Some (ErrV e)))"
    unfolding call Let_def
    by (cases "handler (ctx\<lparr>ctx_span := Some (span_Context (newSpan ''grpc.server'' c (next_id tr)))\<rparr>) req")
       (simp_all add: started_def completed_def finish_tags_def)
next
  obtain c where
    "cfg_Tags c = (cfg_Tags (apply_options (spanOpts (client_config copts)) new_StartSpanConfig))
          (tagMethod \<mapsto> StrV fullMethod,
           ext_SpanType \<mapsto> StrV ext_AppTypeRPC,
           ext_Component \<mapsto> StrV ''google.golang.org/grpc.v12'',
           ext_SpanKind \<mapsto> StrV ext_SpanKindClient)"
    and "cfg_Parent c =
         (case ctx_span cctx of
            Some p \<Rightarrow> Some p
          | None \<Rightarrow> cfg_Parent (apply_options (spanOpts (client_config copts)) new_StartSpanConfig))"
    and call: "UnaryClientInterceptor copts cctx fullMethod creq cc invoker callopts ctr =
         (let s = newSpan ''grpc.client'' c (next_id ctr);
              md = tracer_Inject (span_Context s) (case ctx_md cctx of None \<Rightarrow> Map.empty | Some m \<Rightarrow> m)
          in case invoker (cctx\<lparr>ctx_span := Some (span_Context s), ctx_md := Some md\<rparr>) fullMethod creq cc
                    (callopts @ [grpc_Peer]) of
               Panicked pv \<Rightarrow> (Panicked pv, started ctr s)
             | Returned (reply, p) err \<Rightarrow>
                 (Returned reply err,
                  completed ctr
                    (s\<lparr>span_Tags := (peer_tags (span_Tags s) (Addr p))
                          (tagCode \<mapsto> StrV (Code_String (grpc_Code err)))\<rparr>) err))"
    by (rule client_call)
  let ?s = "newSpan ''grpc.client'' c (next_id ctr)"
  let ?md = "tracer_Inject (span_Context ?s) (case ctx_md cctx of None \<Rightarrow> Map.empty | Some m \<Rightarrow> m)"
  let ?out = "invoker (cctx\<lparr>ctx_span := Some (span_Context ?s), ctx_md := Some ?md\<rparr>) fullMethod creq cc
                (callopts @ [grpc_Peer])"
  have keys: "\<forall>k. k \<noteq> traceIDHeader \<and> k \<noteq> parentIDHeader \<longrightarrow>
          ?md k = (case ctx_md cctx of None \<Rightarrow> None | Some m \<Rightarrow> m k)"
    by (simp add: Inject_other_keys split: option.splits)
  show "let R = UnaryClientInterceptor copts cctx fullMethod creq cc invoker callopts ctr;
        s = spans (snd R) ! length (spans ctr);
        md = tracer_Inject (span_Context s) (case ctx_md cctx of None \<Rightarrow> Map.empty | Some m \<Rightarrow> m);
        out = invoker (cctx\<lparr>ctx_span := Some (span_Context s), ctx_md := Some md\<rparr>) fullMethod creq cc
                (callopts @ [grpc_Peer])
    in fst R = (case out of Panicked pv \<Rightarrow> Panicked pv | Returned (reply, p) err \<Rightarrow> Returned reply err) \<and>
       (\<forall>k. k \<noteq> traceIDHeader \<and> k \<noteq> parentIDHeader \<longrightarrow>
          md k = (case ctx_md cctx of None \<Rightarrow> None | Some m \<Rightarrow> m k)) \<and>
       length (spans (snd R)) = length (spans ctr) + 1 \<and>
       take (length (spans ctr)) (spans (snd R)) = spans ctr \<and>
       (\<forall>p. fst R = Panicked p \<longrightarrow> finished (snd R) = finished ctr) \<and>
       (\<forall>reply err. fst R = Returned reply err \<longrightarrow>
          finished (snd R) = finished ctr @ [(length (spans ctr), err)] \<and>
          (\<forall>e. err = Some e \<longrightarrow> span_Tags s ext_Error = Some (ErrV e)))"
  proof (cases ?out)
    case (Panicked pv)
    then show ?thesis
      unfolding call Let_def using keys
      by (simp add: started_def)
  next
    case (Returned v err)
    obtain reply p where v: "v = (reply, p)" by (cases v)
    show ?thesis
      unfolding call Let_def using keys Returned
      by (simp add: v completed_def finish_tags_def)
  qed
next
  obtain s where "span_OperationName s = driverName tc @ ''.query''"
    and "span_Tags s ''sql.query_type'' = Some (StrV ''Connect'')"
    and "span_Tags s ext_Error = None"
    and call: "tracedConnector_Connect tc dctx dtr =
         (case connector tc dctx of
            Panicked p \<Rightarrow> (Panicked p, started dtr s)
          | Returned conn err \<Rightarrow> (Returned conn err, completed dtr s err))"
    by (rule Connect_call)
  show "let R = tracedConnector_Connect tc dctx dtr;
        s = spans (snd R) ! length (spans dtr)
    in fst R = connector tc dctx \<and>
       length (spans (snd R)) = length (spans dtr) + 1 \<and>
       take (length (spans dtr)) (spans (snd R)) = spans dtr \<and>
       (\<forall>p. fst R = Panicked p \<longrightarrow> finished (snd R) = finished dtr) \<and>
       (\<forall>conn err. fst R = Returned conn err \<longrightarrow>
          finished (snd R) = finished dtr @ [(length (spans dtr), err)] \<and>
          (\<forall>e. err = Some e \<longrightarrow> span_Tags s ext_Error = Some (ErrV e)))"
    unfolding call Let_def
    by (cases "connector tc dctx") (simp_all add: started_def completed_def finish_tags_def)
qed

theorem wrapped_errors_propagate_unchanged_witness:
  "(fst (UnaryServerInterceptor [] example_options cancelled_context () example_info
          example_handler example_tracer) = Returned () (Some cancelled_error) \<and>
    finished (snd (UnaryServerInterceptor [] example_options cancelled_context () example_info
          example_handler example_tracer)) = [(0, Some cancelled_error)] \<and>
    span_Tags (spans (snd (UnaryServerInterceptor [] example_options cancelled_context () example_info
          example_handler example_tracer)) ! 0) ext_Error = Some (ErrV cancelled_error)) \<and>
   (fst (UnaryClientInterceptor example_options cancelled_context ''/grpc.Fixture/Ping'' () ()
          (example_invoker ''127.0.0.1:50051'') [] example_tracer) = Returned () (Some cancelled_error) \<and>
    finished (snd (UnaryClientInterceptor example_options cancelled_context ''/grpc.Fixture/Ping'' () ()
          (example_invoker ''127.0.0.1:50051'') [] example_tracer)) = [(0, Some cancelled_error)] \<and>
    span_Tags (spans (snd (UnaryClientInterceptor example_options cancelled_context ''/grpc.Fixture/Ping'' () ()
          (example_invoker ''127.0.0.1:50051'') [] example_tracer)) ! 0) ext_Error =
      Some (ErrV cancelled_error)) \<and>
   (fst (tracedConnector_Connect example_connector cancelled_context example_tracer) =
      Returned () (Some (PlainError ''context cancelled'')) \<and>
    finished (snd (tracedConnector_Connect example_connector cancelled_context example_tracer)) =
      [(0, Some (PlainError ''context cancelled''))] \<and>
    span_Tags (spans (snd (tracedConnector_Connect example_connector cancelled_context example_tracer)) ! 0)
      ext_Error = Some (ErrV (PlainError ''context cancelled'')))"
proof -
  let ?S = "UnaryServerInterceptor [] example_options cancelled_context () example_info
              example_handler example_tracer"
  let ?C = "UnaryClientInterceptor example_options cancelled_context ''/grpc.Fixture/Ping'' () ()
              (example_invoker ''127.0.0.1:50051'') [] example_tracer"
  let ?D = "tracedConnector_Connect example_connector cancelled_context example_tracer"
  have s1: "fst ?S = Returned () (Some cancelled_error)"
    by (simp add: run_defs example_defs Let_def split_def)
  have c1: "fst ?C = Returned () (Some cancelled_error)"
    by (simp add: run_defs example_defs Let_def split_def)
  have d1: "fst ?D = Returned () (Some (PlainError ''context cancelled''))"
    by (simp add: run_defs example_defs Let_def split_def)
  have l: "length (spans example_tracer) = 0" "finished example_tracer = []"
    by (simp_all add: example_tracer_def)
  note T = wrapped_errors_propagate_unchanged
    [where g = "[]" and opts = example_options and ctx = cancelled_context and req = "()"
       and info = example_info and handler = example_handler and tr = example_tracer
       and copts = example_options and cctx = cancelled_context
       and fullMethod = "''/grpc.Fixture/Ping''" and creq = "()" and cc = "()"
       and invoker = "example_invoker ''127.0.0.1:50051''" and callopts = "[]"
       and ctr = example_tracer
       and tc = example_connector and dctx = cancelled_context and dtr = example_tracer,
     unfolded Let_def l s1 c1 d1]
  have a: "finished (snd ?S) = [(0, Some cancelled_error)] \<and>
      span_Tags (spans (snd ?S) ! 0) ext_Error = Some (ErrV cancelled_error)"
    using conjunct1 [OF T] by simp
  have b: "finished (snd ?C) = [(0, Some cancelled_error)] \<and>
      span_Tags (spans (snd ?C) ! 0) ext_Error = Some (ErrV cancelled_error)"
    using conjunct1 [OF conjunct2 [OF T]] by simp
  have c: "finished (snd ?D) = [(0, Some (PlainError ''context cancelled''))] \<and>
      span_Tags (spans (snd ?D) ! 0) ext_Error = Some (ErrV (PlainError ''context cancelled''))"
    using conjunct2 [OF conjunct2 [OF T]] by simp
  from a b c s1 c1 d1 show ?thesis
    by simp
qed

section \<open>The server interceptor\<close>


lemma Extract_inbound_example:
  "tracer_Extract (fst (metadata_FromContext inbound_example)) = Inr \<lparr>TraceID = 3, SpanID = 4\<rparr>"
  by (simp add: inbound_example_def metadata_FromContext_def tracer_Extract_def MDCarrier_Get_def
      traceIDHeader_def parentIDHeader_def ParseUint_def digit_value_def)



section \<open>The client interceptor\<close>

lemma digit_value_digit_char: "d < 10 \<Longrightarrow> digit_value (digit_char d) = Some d"
  by (simp add: digit_value_def digit_char_def Let_def)

lemma parse_digits_snoc:
  "parse_digits acc (cs @ [c]) =
     (case parse_digits acc cs of
        None \<Rightarrow> None
      | Some v \<Rightarrow> (case digit_value c of None \<Rightarrow> None | Some d \<Rightarrow> Some (v * 10 + d)))"
  by (induction cs arbitrary: acc) (auto split: option.splits)

lemma parse_digits_FormatUint: "parse_digits 0 (FormatUint n) = Some n"
proof (induction n rule: FormatUint.induct)
  case (1 n)
  show ?case
  proof (cases "n < 10")
    case True
    then show ?thesis
      by (simp add: FormatUint.simps [of n] digit_value_digit_char)
  next
    case False
    with "1" have "parse_digits 0 (FormatUint (n div 10)) = Some (n div 10)"
      by simp
    with False show ?thesis
      by (simp add: FormatUint.simps [of n] parse_digits_snoc digit_value_digit_char)
  qed
qed

lemma FormatUint_not_empty: "FormatUint n \<noteq> []"
  by (simp add: FormatUint.simps [of n])

lemma ParseUint_FormatUint: "ParseUint (FormatUint n) = Some n"
  by (simp add: ParseUint_def FormatUint_not_empty parse_digits_FormatUint)

lemma Extract_Inject: "tracer_Extract (tracer_Inject sctx md) = Inr sctx"
  by (simp add: tracer_Extract_def tracer_Inject_def MDCarrier_Set_def MDCarrier_Get_def
      traceIDHeader_def parentIDHeader_def FormatUint_not_empty ParseUint_FormatUint Let_def)


lemma peer_tags_port:
  "SplitHostPort addr = Inr (host, port) \<Longrightarrow>
   peer_tags tags (Some addr) ext_TargetPort = Some (StrV port)"
  by (simp add: peer_tags_def)

lemma peer_tags_host:
  "SplitHostPort addr = Inr (host, port) \<Longrightarrow> host \<noteq> [] \<Longrightarrow>
   peer_tags tags (Some addr) ext_TargetHost = Some (StrV host)"
  by (simp add: peer_tags_def tag_names)

lemma client_tag_at:
  "k \<noteq> tagCode \<Longrightarrow> k \<noteq> ext_Error \<Longrightarrow>
   finish_tags (tags(tagCode \<mapsto> v)) err k = tags k"
  by (simp add: finish_tags_def split: option.splits)

lemma client_tag_code:
  "finish_tags (tags(tagCode \<mapsto> v)) err tagCode = Some v"
  by (simp add: finish_tags_def tagCode_not_error split: option.splits)

lemmas split_defs = SplitHostPort_def last_index_def index_byte_def split_tail_def

lemma SplitHostPort_example: "SplitHostPort ''127.0.0.1:50051'' = Inr (''127.0.0.1'', ''50051'')"
  by (simp add: split_defs)

lemma SplitHostPort_no_host: "SplitHostPort '':50051'' = Inr ([], ''50051'')"
  by (simp add: split_defs)

text \<open>
  C3, as amended. For every outbound call, the function returned by
  \<^verbatim>\<open>UnaryClientInterceptor\<close> starts one span named \<^verbatim>\<open>grpc.client\<close> with span kind client,
  injects the context of that span into the outbound metadata (extracting from the
  metadata handed to the invoker gives the span's context back), invokes the real call
  with that metadata and with the call options followed by the peer option, and returns
  the invoker's outcome. When the invoker returns, the span is tagged with the status
  code of the invoker's error and is finished once with that error; and when the peer
  address splits into host and port, the span is tagged with the port, and with the
  host when the host is not empty.
\<close>

theorem client_interceptor_traces_call:
  assumes run: "UnaryClientInterceptor opts ctx fullMethod req cc invoker callopts tr = (res, tr')"
  shows "length (spans tr') = length (spans tr) + 1 \<and>
    span_OperationName (spans tr' ! length (spans tr)) = ''grpc.client'' \<and>
    span_Tags (spans tr' ! length (spans tr)) ext_SpanKind = Some (StrV ''client'') \<and>
    (let sc = span_Context (spans tr' ! length (spans tr));
         md = tracer_Inject sc (case ctx_md ctx of None \<Rightarrow> Map.empty | Some m \<Rightarrow> m);
         out = invoker (ctx\<lparr>ctx_span := Some sc, ctx_md := Some md\<rparr>) fullMethod req cc
                 (callopts @ [grpc_Peer])
     in tracer_Extract md = Inr sc \<and>
        res = (case out of Panicked pv \<Rightarrow> Panicked pv | Returned (reply, p) err \<Rightarrow> Returned reply err) \<and>
        (\<forall>reply p err. out = Returned (reply, p) err \<longrightarrow>
           span_Tags (spans tr' ! length (spans tr)) tagCode = Some (StrV (Code_String (grpc_Code err))) \<and>
           finished tr' = finished tr @ [(length (spans tr), err)] \<and>
           (\<forall>addr host port. Addr p = Some addr \<and> SplitHostPort addr = Inr (host, port) \<longrightarrow>
              span_Tags (spans tr' ! length (spans tr)) ext_TargetPort = Some (StrV port) \<and>
              (host \<noteq> [] \<longrightarrow>
               span_Tags (spans tr' ! length (spans tr)) ext_TargetHost = Some (StrV host)))))"
proof -
  obtain c where
    tags: "cfg_Tags c = (cfg_Tags (apply_options (spanOpts (client_config opts)) new_StartSpanConfig))
          (tagMethod \<mapsto> StrV fullMethod,
           ext_SpanType \<mapsto> StrV ext_AppTypeRPC,
           ext_Component \<mapsto> StrV ''google.golang.org/grpc.v12'',
           ext_SpanKind \<mapsto> StrV ext_SpanKindClient)"
    and "cfg_Parent c =
         (case ctx_span ctx of
            Some p \<Rightarrow> Some p
          | None \<Rightarrow> cfg_Parent (apply_options (spanOpts (client_config opts)) new_StartSpanConfig))"
    and call: "UnaryClientInterceptor opts ctx fullMethod req cc invoker callopts tr =
         (let s = newSpan ''grpc.client'' c (next_id tr);
              md = tracer_Inject (span_Context s) (case ctx_md ctx of None \<Rightarrow> Map.empty | Some m \<Rightarrow> m)
          in case invoker (ctx\<lparr>ctx_span := Some (span_Context s), ctx_md := Some md\<rparr>) fullMethod req cc
                    (callopts @ [grpc_Peer]) of
               Panicked pv \<Rightarrow> (Panicked pv, started tr s)
             | Returned (reply, p) err \<Rightarrow>
                 (Returned reply err,
                  completed tr
                    (s\<lparr>span_Tags := (peer_tags (span_Tags s) (Addr p))
                          (tagCode \<mapsto> StrV (Code_String (grpc_Code err)))\<rparr>) err))"
    by (rule client_call)
  let ?s = "newSpan ''grpc.client'' c (next_id tr)"
  let ?s' = "spans tr' ! length (spans tr)"
  let ?md = "tracer_Inject (span_Context ?s) (case ctx_md ctx of None \<Rightarrow> Map.empty | Some m \<Rightarrow> m)"
  let ?out = "invoker (ctx\<lparr>ctx_span := Some (span_Context ?s), ctx_md := Some ?md\<rparr>) fullMethod req cc
                 (callopts @ [grpc_Peer])"
  have res: "res = (case ?out of Panicked pv \<Rightarrow> Panicked pv | Returned (reply, p) err \<Rightarrow> Returned reply err)"
    using call run by (auto simp: Let_def split: call_result.splits prod.splits)
  have tr': "tr' = (case ?out of
                      Panicked pv \<Rightarrow> started tr ?s
                    | Returned (reply, p) err \<Rightarrow>
                        completed tr (?s\<lparr>span_Tags := (peer_tags (span_Tags ?s) (Addr p))
                          (tagCode \<mapsto> StrV (Code_String (grpc_Code err)))\<rparr>) err)"
    using call run by (auto simp: Let_def split: call_result.splits prod.splits)
  have len: "length (spans tr') = length (spans tr) + 1"
    by (simp add: tr' started_length completed_length split: call_result.splits prod.splits)
  have s': "?s' = (case ?out of
                     Panicked pv \<Rightarrow> ?s
                   | Returned (reply, p) err \<Rightarrow>
                       ?s\<lparr>span_Tags := finish_tags ((peer_tags (span_Tags ?s) (Addr p))
                          (tagCode \<mapsto> StrV (Code_String (grpc_Code err)))) err\<rparr>)"
    by (simp add: tr' started_nth completed_nth split: call_result.splits prod.splits)
  have sctx: "span_Context ?s' = span_Context ?s"
    by (simp add: s' split: call_result.splits prod.splits)
  have name: "span_OperationName ?s' = ''grpc.client''"
    by (simp add: s' newSpan_def split: call_result.splits prod.splits)
  have kind0: "span_Tags ?s ext_SpanKind = Some (StrV ''client'')"
    by (simp add: newSpan_def tags tag_names)
  have k0: "ext_SpanKind \<noteq> tagCode" "ext_SpanKind \<noteq> ext_Error"
    "ext_SpanKind \<noteq> ext_TargetHost" "ext_SpanKind \<noteq> ext_TargetPort"
    by (simp_all add: tag_names)
  have kind: "span_Tags ?s' ext_SpanKind = Some (StrV ''client'')"
    unfolding s' using kind0
    by (auto simp: client_tag_at peer_tags_other k0 split: call_result.splits prod.splits)
  have after: "\<forall>reply p err. ?out = Returned (reply, p) err \<longrightarrow>
           span_Tags ?s' tagCode = Some (StrV (Code_String (grpc_Code err))) \<and>
           finished tr' = finished tr @ [(length (spans tr), err)] \<and>
           (\<forall>addr host port. Addr p = Some addr \<and> SplitHostPort addr = Inr (host, port) \<longrightarrow>
              span_Tags ?s' ext_TargetPort = Some (StrV port) \<and>
              (host \<noteq> [] \<longrightarrow> span_Tags ?s' ext_TargetHost = Some (StrV host)))"
  proof (intro allI impI)
    fix reply p err
    assume out: "?out = Returned (reply, p) err"
    have s'': "?s' = ?s\<lparr>span_Tags := finish_tags ((peer_tags (span_Tags ?s) (Addr p))
                          (tagCode \<mapsto> StrV (Code_String (grpc_Code err)))) err\<rparr>"
      by (simp add: s' out)
    have code: "span_Tags ?s' tagCode = Some (StrV (Code_String (grpc_Code err)))"
      by (simp add: s'' client_tag_code)
    have fin: "finished tr' = finished tr @ [(length (spans tr), err)]"
      by (simp add: tr' out completed_finished)
    have peer: "\<forall>addr host port. Addr p = Some addr \<and> SplitHostPort addr = Inr (host, port) \<longrightarrow>
              span_Tags ?s' ext_TargetPort = Some (StrV port) \<and>
              (host \<noteq> [] \<longrightarrow> span_Tags ?s' ext_TargetHost = Some (StrV host))"
    proof (intro allI impI, elim conjE)
      fix addr host port
      assume a: "Addr p = Some addr" and sp: "SplitHostPort addr = Inr (host, port)"
      have k1: "ext_TargetPort \<noteq> tagCode" "ext_TargetPort \<noteq> ext_Error"
        "ext_TargetHost \<noteq> tagCode" "ext_TargetHost \<noteq> ext_Error"
        by (simp_all add: tag_names)
      have port: "span_Tags ?s' ext_TargetPort = Some (StrV port)"
        by (simp add: s'' a client_tag_at k1 peer_tags_port [OF sp])
      have host: "host \<noteq> [] \<longrightarrow> span_Tags ?s' ext_TargetHost = Some (StrV host)"
        by (simp add: s'' a client_tag_at k1 peer_tags_host [OF sp])
      from port host show "span_Tags ?s' ext_TargetPort = Some (StrV port) \<and>
              (host \<noteq> [] \<longrightarrow> span_Tags ?s' ext_TargetHost = Some (StrV host))" ..
    qed
    from code fin peer show "span_Tags ?s' tagCode = Some (StrV (Code_String (grpc_Code err))) \<and>
           finished tr' = finished tr @ [(length (spans tr), err)] \<and>
           (\<forall>addr host port. Addr p = Some addr \<and> SplitHostPort addr = Inr (host, port) \<longrightarrow>
              span_Tags ?s' ext_TargetPort = Some (StrV port) \<and>
              (host \<noteq> [] \<longrightarrow> span_Tags ?s' ext_TargetHost = Some (StrV host)))"
      by (intro conjI)
  qed
  have inj: "tracer_Extract ?md = Inr (span_Context ?s)"
    by (rule Extract_Inject)
  show ?thesis
    unfolding Let_def sctx
    by (intro conjI len name kind inj res after)
qed

theorem client_interceptor_traces_call_witness:
  "span_Tags (spans (snd (UnaryClientInterceptor example_options background_context
       ''/grpc.Fixture/Ping'' () () (example_invoker ''127.0.0.1:50051'') [] example_tracer)) ! 0)
     ext_TargetHost = Some (StrV ''127.0.0.1'') \<and>
   span_Tags (spans (snd (UnaryClientInterceptor example_options background_context
       ''/grpc.Fixture/Ping'' () () (example_invoker ''127.0.0.1:50051'') [] example_tracer)) ! 0)
     ext_TargetPort = Some (StrV ''50051'') \<and>
   span_Tags (spans (snd (UnaryClientInterceptor example_options background_context
       ''/grpc.Fixture/Ping'' () () (example_invoker ''127.0.0.1:50051'') [] example_tracer)) ! 0)
     tagCode = Some (StrV ''OK'') \<and>
   finished (snd (UnaryClientInterceptor example_options background_context
       ''/grpc.Fixture/Ping'' () () (example_invoker ''127.0.0.1:50051'') [] example_tracer)) = [(0, None)]"
proof -
  let ?C = "UnaryClientInterceptor example_options background_context
       ''/grpc.Fixture/Ping'' () () (example_invoker ''127.0.0.1:50051'') [] example_tracer"
  note T = client_interceptor_traces_call [of example_options background_context
       "''/grpc.Fixture/Ping''" "()" "()" "example_invoker ''127.0.0.1:50051''" "[]" example_tracer
       "fst ?C" "snd ?C", OF prod.collapse [symmetric]]
  have l: "length (spans example_tracer) = 0" "finished example_tracer = []"
    by (simp_all add: example_tracer_def)
  have out: "\<And>c m. example_invoker ''127.0.0.1:50051''
       (background_context\<lparr>ctx_span := Some c, ctx_md := Some m\<rparr>) ''/grpc.Fixture/Ping'' () () [grpc_Peer] =
     Returned ((), \<lparr>Addr = Some ''127.0.0.1:50051''\<rparr>) None"
    by (simp add: example_invoker_def background_context_def)
  from T show ?thesis
    unfolding l Let_def by (simp add: out SplitHostPort_example)
qed

text \<open>
  C3 as stated fails for a peer address with an empty host: \<^verbatim>\<open>:50051\<close> splits without
  error into the empty host and the port 50051, and the span gets the port tag and no
  host tag, because line 107 of grpc.go sets the host tag only for a non-empty host.
\<close>

theorem client_host_tag_counterexample:
  "SplitHostPort '':50051'' = Inr ([], ''50051'') \<and>
   span_Tags (spans (snd (UnaryClientInterceptor [] background_context ''/grpc.Fixture/Ping'' () ()
       (example_invoker '':50051'') [] example_tracer)) ! 0) ext_TargetPort = Some (StrV ''50051'') \<and>
   span_Tags (spans (snd (UnaryClientInterceptor [] background_context ''/grpc.Fixture/Ping'' () ()
       (example_invoker '':50051'') [] example_tracer)) ! 0) ext_TargetHost = None"
  by (simp add: SplitHostPort_no_host run_defs example_defs Let_def split_def span_SetTag_def
      span_Finish_def tracer_WithError_def newSpan_def new_StartSpanConfig_def tag_options tag_names)

section \<open>Service name\<close>

lemma server_config_serviceName:
  "serviceName (server_config g opts) =
     spec_service_name [] (serviceName (apply_options opts (defaults new_interceptorConfig))) g ''grpc.server''"
  by (simp add: server_config_def spec_service_name_def Let_def)

lemma server_span_service:
  "span_Tags (spans (snd (UnaryServerInterceptor g opts ctx req info handler tr)) ! length (spans tr))
     ext_ServiceName = Some (StrV (serviceName (server_config g opts)))"
proof -
  obtain c where
    tags: "cfg_Tags c = (cfg_Tags (apply_options (spanOpts (server_config g opts)) new_StartSpanConfig))
          (ext_ServiceName \<mapsto> StrV (serviceName (server_config g opts)),
           ext_ResourceName \<mapsto> StrV (FullMethod info),
           tagMethod \<mapsto> StrV (FullMethod info),
           ext_SpanType \<mapsto> StrV ext_AppTypeRPC,
           keyMeasured \<mapsto> NumV 1,
           ext_Component \<mapsto> StrV ''google.golang.org/grpc.v12'',
           ext_SpanKind \<mapsto> StrV ext_SpanKindServer)"
    and parent: "cfg_Parent c =
         (case ctx_span ctx of
            Some p \<Rightarrow> Some p
          | None \<Rightarrow>
              (case tracer_Extract (fst (metadata_FromContext ctx)) of
                 Inr sctx \<Rightarrow> Some sctx
               | Inl e \<Rightarrow> cfg_Parent (apply_options (spanOpts (server_config g opts)) new_StartSpanConfig)))"
    and call: "UnaryServerInterceptor g opts ctx req info handler tr =
         (case handler (ctx\<lparr>ctx_span := Some (span_Context (newSpan ''grpc.server'' c (next_id tr)))\<rparr>) req of
            Panicked p \<Rightarrow> (Panicked p, started tr (newSpan ''grpc.server'' c (next_id tr)))
          | Returned resp err \<Rightarrow>
              (Returned resp err, completed tr (newSpan ''grpc.server'' c (next_id tr)) err))"
    by (rule server_call)
  have k: "ext_ServiceName \<noteq> ext_Error"
    by (simp add: tag_names)
  have "span_Tags (newSpan ''grpc.server'' c (next_id tr)) ext_ServiceName =
      Some (StrV (serviceName (server_config g opts)))"
    by (simp add: newSpan_def tags tag_names)
  then show ?thesis
    by (simp add: call started_nth completed_nth finish_tags_other k split: call_result.splits)
qed

lemma server_span_service_resolved:
  "span_Tags (spans (snd (UnaryServerInterceptor g opts ctx req info handler tr)) ! length (spans tr))
     ext_ServiceName =
     Some (StrV (spec_service_name []
       (serviceName (apply_options opts (defaults new_interceptorConfig))) g ''grpc.server''))"
  by (simp add: server_span_service server_config_serviceName)

lemma client_config_spanOpts:
  "spanOpts (client_config (opts @ [WithServiceName name])) = spanOpts (client_config opts)"
  by (simp add: client_config_def WithServiceName_def Let_def)

lemma client_ignores_WithServiceName:
  "UnaryClientInterceptor (opts @ [WithServiceName name]) = UnaryClientInterceptor opts"
  by (simp add: UnaryClientInterceptor_def client_config_spanOpts Let_def)

text \<open>
  C4. The claim holds of the server interceptor as far as the code has the sources it
  names: the span carries the service name set by the construction-time options, else
  the global default, else \<^verbatim>\<open>grpc.server\<close> (\<open>server_span_service_resolved\<close>; line 43
  of grpc.go passes the resolved name to the span). The client interceptor resolves a
  name into its configuration (lines 78 to 80) but the closure of lines 82 to 116 never
  passes it to the span, so the option \<^verbatim>\<open>WithServiceName\<close> has no effect on what the
  client does (\<open>client_ignores_WithServiceName\<close>). At the input below the claim gives the
  service name \<^verbatim>\<open>my-client\<close>, the configuration holds it, and the emitted span has no
  service name from the interceptor.
\<close>

theorem client_span_lacks_service_name:
  "spec_service_name [] ''my-client'' [] ''grpc.client'' = ''my-client'' \<and>
   serviceName (client_config [WithServiceName ''my-client'']) = ''my-client'' \<and>
   span_Tags (spans (snd (UnaryClientInterceptor [WithServiceName ''my-client''] background_context
       ''/grpc.Fixture/Ping'' () () (example_invoker ''127.0.0.1:50051'') [] example_tracer)) ! 0)
     ext_ServiceName = None"
  by (simp add: spec_service_name_def SplitHostPort_def last_index_def index_byte_def split_tail_def
      run_defs example_defs Let_def split_def
      span_SetTag_def span_Finish_def tracer_WithError_def newSpan_def new_StartSpanConfig_def
      tag_options tag_names)

section \<open>Registration of drivers\<close>

text \<open>
  C5. \<^verbatim>\<open>Register\<close> is idempotent per driver name: after a call with a name, a second
  call with that name, whatever driver and options it is given, leaves the table as it
  is; the entry under the name is the one that was there, or else the driver and the
  options of the first call. \<^verbatim>\<open>Register\<close> is a total function that returns the table:
  it has no panic and no error to return.
\<close>

theorem Register_idempotent:
  "Register name driver2 opts2 (Register name driver1 opts1 regs) = Register name driver1 opts1 regs \<and>
   Register name driver1 opts1 regs name =
     (case regs name of
        Some entry \<Rightarrow> Some entry
      | None \<Rightarrow> Some (driver1, apply_options opts1 (sql_defaults name)))"
  by (simp add: Register_def split: option.splits)

theorem Register_idempotent_witness:
  "Register ''postgres'' (2::nat) [sql_WithServiceName ''other'']
     (Register ''postgres'' 1 [sql_WithServiceName ''postgres-test'', sql_WithAnalyticsRate (1::nat)]
        Map.empty) ''postgres'' =
   Some (1, \<lparr>cfg_serviceName = ''postgres-test'', cfg_analyticsRate = Some 1, cfg_dsn = []\<rparr>)"
  using Register_idempotent [of "''postgres''" "2::nat" "[sql_WithServiceName ''other'']" "1::nat"
      "[sql_WithServiceName ''postgres-test'', sql_WithAnalyticsRate (1::nat)]" Map.empty]
  by (simp add: sql_defaults_def sql_WithServiceName_def sql_WithAnalyticsRate_def)

section \<open>Propagation from client to server\<close>

lemma inbound_context_Extract:
  "tracer_Extract (fst (metadata_FromContext (inbound_context (ctx\<lparr>ctx_span := sp, ctx_md := Some (tracer_Inject sctx md)\<rparr>)))) = Inr sctx"
  by (simp add: inbound_context_def metadata_FromContext_def Extract_Inject)

lemma server_child_of_extracted:
  assumes "ctx_span ctx = None"
    and "tracer_Extract (fst (metadata_FromContext ctx)) = Inr sctx"
  shows "length (spans (snd (UnaryServerInterceptor g opts ctx req info handler tr))) = length (spans tr) + 1 \<and>
    span_ParentID (spans (snd (UnaryServerInterceptor g opts ctx req info handler tr)) ! length (spans tr)) = SpanID sctx \<and>
    TraceID (span_Context (spans (snd (UnaryServerInterceptor g opts ctx req info handler tr)) ! length (spans tr))) = TraceID sctx"
proof -
  obtain c where
    tags: "cfg_Tags c = (cfg_Tags (apply_options (spanOpts (server_config g opts)) new_StartSpanConfig))
          (ext_ServiceName \<mapsto> StrV (serviceName (server_config g opts)),
           ext_ResourceName \<mapsto> StrV (FullMethod info),
           tagMethod \<mapsto> StrV (FullMethod info),
           ext_SpanType \<mapsto> StrV ext_AppTypeRPC,
           keyMeasured \<mapsto> NumV 1,
           ext_Component \<mapsto> StrV ''google.golang.org/grpc.v12'',
           ext_SpanKind \<mapsto> StrV ext_SpanKindServer)"
    and parent: "cfg_Parent c =
         (case ctx_span ctx of
            Some p \<Rightarrow> Some p
          | None \<Rightarrow>
              (case tracer_Extract (fst (metadata_FromContext ctx)) of
                 Inr sctx \<Rightarrow> Some sctx
               | Inl e \<Rightarrow> cfg_Parent (apply_options (spanOpts (server_config g opts)) new_StartSpanConfig)))"
    and call: "UnaryServerInterceptor g opts ctx req info handler tr =
         (case handler (ctx\<lparr>ctx_span := Some (span_Context (newSpan ''grpc.server'' c (next_id tr)))\<rparr>) req of
            Panicked p \<Rightarrow> (Panicked p, started tr (newSpan ''grpc.server'' c (next_id tr)))
          | Returned resp err \<Rightarrow>
              (Returned resp err, completed tr (newSpan ''grpc.server'' c (next_id tr)) err))"
    by (rule server_call)
  have p: "cfg_Parent c = Some sctx"
    by (simp add: parent assms)
  show ?thesis
    by (simp add: call started_nth completed_nth started_length completed_length newSpan_def p
        split: call_result.splits)
qed

text \<open>
  C9. A call traced by the client interceptor and served by the server interceptor on
  the metadata the client sent: the client returns, each side has started one span, and
  the parent identifier of the server's span is the identifier of the client's span;
  both spans have the same trace identifier. This holds for every metadata the caller's
  context held before, since extracting after injecting gives the injected context.
\<close>

theorem trace_context_round_trip:
  "\<exists>sres trS' err trC'.
     UnaryClientInterceptor copts cctx fullMethod req cc (serve g sopts handler trS addr) callopts trC =
       (Returned (sres, trS') err, trC') \<and>
     length (spans trC') = length (spans trC) + 1 \<and>
     length (spans trS') = length (spans trS) + 1 \<and>
     span_ParentID (spans trS' ! length (spans trS)) =
       SpanID (span_Context (spans trC' ! length (spans trC))) \<and>
     TraceID (span_Context (spans trS' ! length (spans trS))) =
       TraceID (span_Context (spans trC' ! length (spans trC)))"
proof -
  obtain c where
    tags: "cfg_Tags c = (cfg_Tags (apply_options (spanOpts (client_config copts)) new_StartSpanConfig))
          (tagMethod \<mapsto> StrV fullMethod,
           ext_SpanType \<mapsto> StrV ext_AppTypeRPC,
           ext_Component \<mapsto> StrV ''google.golang.org/grpc.v12'',
           ext_SpanKind \<mapsto> StrV ext_SpanKindClient)"
    and "cfg_Parent c =
         (case ctx_span cctx of
            Some p \<Rightarrow> Some p
          | None \<Rightarrow> cfg_Parent (apply_options (spanOpts (client_config copts)) new_StartSpanConfig))"
    and call: "UnaryClientInterceptor copts cctx fullMethod req cc (serve g sopts handler trS addr) callopts trC =
         (let s = newSpan ''grpc.client'' c (next_id trC);
              md = tracer_Inject (span_Context s) (case ctx_md cctx of None \<Rightarrow> Map.empty | Some m \<Rightarrow> m)
          in case serve g sopts handler trS addr (cctx\<lparr>ctx_span := Some (span_Context s), ctx_md := Some md\<rparr>) fullMethod req cc
                    (callopts @ [grpc_Peer]) of
               Panicked pv \<Rightarrow> (Panicked pv, started trC s)
             | Returned (reply, p) err \<Rightarrow>
                 (Returned reply err,
                  completed trC
                    (s\<lparr>span_Tags := (peer_tags (span_Tags s) (Addr p))
                          (tagCode \<mapsto> StrV (Code_String (grpc_Code err)))\<rparr>) err))"
    by (rule client_call)
  let ?s = "newSpan ''grpc.client'' c (next_id trC)"
  let ?md = "tracer_Inject (span_Context ?s) (case ctx_md cctx of None \<Rightarrow> Map.empty | Some m \<Rightarrow> m)"
  let ?ctx = "inbound_context (cctx\<lparr>ctx_span := Some (span_Context ?s), ctx_md := Some ?md\<rparr>)"
  let ?r = "UnaryServerInterceptor g sopts ?ctx req \<lparr>FullMethod = fullMethod\<rparr> handler trS"
  let ?trC' = "completed trC (?s\<lparr>span_Tags := (peer_tags (span_Tags ?s) addr)
                  (tagCode \<mapsto> StrV (Code_String (grpc_Code (result_error (fst ?r)))))\<rparr>)
                (result_error (fst ?r))"
  have run: "UnaryClientInterceptor copts cctx fullMethod req cc (serve g sopts handler trS addr) callopts trC =
       (Returned (fst ?r, snd ?r) (result_error (fst ?r)), ?trC')"
    by (subst call) (simp add: serve_def Let_def)
  have nospan: "ctx_span ?ctx = None"
    by (simp add: inbound_context_def)
  have ex: "tracer_Extract (fst (metadata_FromContext ?ctx)) = Inr (span_Context ?s)"
    by (rule inbound_context_Extract)
  note server = server_child_of_extracted [OF nospan ex, of g sopts req "\<lparr>FullMethod = fullMethod\<rparr>" handler trS]
  have lenC: "length (spans ?trC') = length (spans trC) + 1"
    by (simp add: completed_length)
  have sC: "span_Context (spans ?trC' ! length (spans trC)) = span_Context ?s"
    by (simp add: completed_nth)
  show ?thesis
  proof (intro exI conjI)
    show "UnaryClientInterceptor copts cctx fullMethod req cc (serve g sopts handler trS addr) callopts trC =
       (Returned (fst ?r, snd ?r) (result_error (fst ?r)), ?trC')"
      by (rule run)
    show "length (spans ?trC') = length (spans trC) + 1"
      by (rule lenC)
    show "length (spans (snd ?r)) = length (spans trS) + 1"
      using server by (rule conjunct1)
    show "span_ParentID (spans (snd ?r) ! length (spans trS)) =
       SpanID (span_Context (spans ?trC' ! length (spans trC)))"
      unfolding sC using server by simp
    show "TraceID (span_Context (spans (snd ?r) ! length (spans trS))) =
       TraceID (span_Context (spans ?trC' ! length (spans trC)))"
      unfolding sC using server by simp
  qed
qed

section \<open>The caller's slice of options\<close>

lemma write_at_length: "i + length ys \<le> length xs \<Longrightarrow> length (write_at xs i ys) = length xs"
  by (simp add: write_at_def)

lemma write_at_window:
  assumes "off + n + length ys \<le> length xs"
  shows "take (n + length ys) (drop off (write_at xs (off + n) ys)) = take n (drop off xs) @ ys"
proof -
  have "drop off (write_at xs (off + n) ys) =
      drop off (take (off + n) xs) @ ys @ drop (off + n + length ys) xs"
    using assms by (simp add: write_at_def)
  moreover have "drop off (take (off + n) xs) = take n (drop off xs)"
    by (simp add: drop_take)
  moreover have "length (take n (drop off xs)) = n"
    using assms by simp
  ultimately show ?thesis by simp
qed

lemma slice_elems_length: "slice_ok st s \<Longrightarrow> length (slice_elems st s) = s_len s"
  by (auto simp: slice_elems_def slice_ok_def)

lemma go_make_store: "snd (go_make n c st) = st @ [replicate c None]"
  and go_make_slice: "fst (go_make n c st) = \<lparr>s_array = length st, s_off = 0, s_len = n, s_cap = c\<rparr>"
  by (simp_all add: go_make_def)

lemma go_copy_frame:
  "k \<le> s_array dst \<Longrightarrow> take k (go_copy dst src st) = take k st"
  by (simp add: go_copy_def Let_def take_update_cancel)

lemma go_copy_length: "length (go_copy dst src st) = length st"
  by (simp add: go_copy_def Let_def)

lemma go_append_frame:
  "k \<le> s_array s \<Longrightarrow> k \<le> length st \<Longrightarrow> take k (snd (go_append grow s ys st)) = take k st"
  by (simp add: go_append_def Let_def take_update_cancel)

lemma go_append_length: "length st \<le> length (snd (go_append grow s ys st))"
  by (simp add: go_append_def Let_def)

lemma go_append_fresh:
  "k \<le> s_array s \<Longrightarrow> k \<le> length st \<Longrightarrow> k \<le> s_array (fst (go_append grow s ys st))"
  by (simp add: go_append_def Let_def)

lemma go_append_elems:
  assumes "slice_ok st s"
  shows "slice_elems (snd (go_append grow s ys st)) (fst (go_append grow s ys st)) =
         slice_elems st s @ map Some ys"
proof (cases "s_len s + length ys \<le> s_cap s")
  case True
  with assms have "s_off s + s_len s + length (map Some ys) \<le> length (st ! s_array s)"
    by (simp add: slice_ok_def)
  from write_at_window [OF this] True assms show ?thesis
    by (simp add: go_append_def slice_elems_def slice_ok_def Let_def)
next
  case False
  have "length (slice_elems st s) = s_len s"
    using assms by (rule slice_elems_length)
  with False show ?thesis
    by (simp add: go_append_def slice_elems_def Let_def)
qed

lemma go_append_ok:
  assumes "slice_ok st s"
  shows "slice_ok (snd (go_append grow s ys st)) (fst (go_append grow s ys st))"
proof (cases "s_len s + length ys \<le> s_cap s")
  case True
  with assms show ?thesis
    by (simp add: go_append_def slice_ok_def Let_def write_at_length)
next
  case False
  have "length (slice_elems st s) = s_len s"
    using assms by (rule slice_elems_length)
  with False show ?thesis
    by (simp add: go_append_def slice_ok_def Let_def)
qed

lemma go_append_other:
  "slice_ok st t \<Longrightarrow> s_array t \<noteq> s_array s \<Longrightarrow>
   slice_elems (snd (go_append grow s ys st)) t = slice_elems st t"
  by (simp add: go_append_def slice_elems_def slice_ok_def Let_def nth_append)

lemma make_copy_elems:
  assumes "slice_ok st src"
  shows "slice_elems (go_copy (fst (go_make (s_len src) (s_len src + 6) st)) src
            (snd (go_make (s_len src) (s_len src + 6) st)))
           (fst (go_make (s_len src) (s_len src + 6) st)) = slice_elems st src"
    and "slice_ok (go_copy (fst (go_make (s_len src) (s_len src + 6) st)) src
            (snd (go_make (s_len src) (s_len src + 6) st)))
           (fst (go_make (s_len src) (s_len src + 6) st))"
proof -
  have len: "length (slice_elems st src) = s_len src"
    using assms by (rule slice_elems_length)
  have same: "slice_elems (st @ [replicate (s_len src + 6) None]) src = slice_elems st src"
    using assms by (simp add: slice_elems_def slice_ok_def nth_append)
  show "slice_elems (go_copy (fst (go_make (s_len src) (s_len src + 6) st)) src
            (snd (go_make (s_len src) (s_len src + 6) st)))
           (fst (go_make (s_len src) (s_len src + 6) st)) = slice_elems st src"
    using len by (simp add: go_make_def go_copy_def Let_def same write_at_def slice_elems_def [of _ "\<lparr>s_array = length st, s_off = 0, s_len = s_len src, s_cap = s_len src + 6\<rparr>"])
  show "slice_ok (go_copy (fst (go_make (s_len src) (s_len src + 6) st)) src
            (snd (go_make (s_len src) (s_len src + 6) st)))
           (fst (go_make (s_len src) (s_len src + 6) st))"
    using len by (simp add: go_make_def go_copy_def Let_def same write_at_def slice_ok_def)
qed


lemma frame_elems:
  "take (length st) st' = st \<Longrightarrow> s_array s < length st \<Longrightarrow> slice_elems st' s = slice_elems st s"
proof -
  assume a: "take (length st) st' = st" and b: "s_array s < length st"
  have "take (length st) st' ! s_array s = st' ! s_array s"
    using b by simp
  with a show ?thesis
    by (simp add: slice_elems_def)
qed

lemma append_in_place_example:
  "snd (go_append double_capacity example_slice [tracer_Measured] example_store) =
     [[Some (tracer_Tag ''foo'' (StrV ''bar'')), Some tracer_Measured]]"
  by (simp add: go_append_def example_slice_def example_store_def write_at_def Let_def)

text \<open>
  C10. \<^verbatim>\<open>startSpanFromContext\<close> never writes to the caller's slice of options: every
  backing array that exists when it is called, the caller's with its spare capacity
  included, is the same after the call, for every store, every slice and every growth
  policy of \<^verbatim>\<open>append\<close>; the slice it builds lives in an array allocated by the call.
  For a well-formed slice, the caller reads the same options from its slice afterwards,
  and the slice that is built holds the caller's options followed by the function's
  own, which is the list of options of \<open>startSpanFromContext\<close> above.
\<close>

theorem startSpanFromContext_leaves_opts:
  "take (length st) (snd (startSpanFromContext_optsLocal grow ctx fullMethod service opts st)) = st \<and>
   length st \<le> s_array (fst (startSpanFromContext_optsLocal grow ctx fullMethod service opts st)) \<and>
   (slice_ok st opts \<longrightarrow>
      slice_elems (snd (startSpanFromContext_optsLocal grow ctx fullMethod service opts st)) opts =
        slice_elems st opts \<and>
      slice_elems (snd (startSpanFromContext_optsLocal grow ctx fullMethod service opts st))
          (fst (startSpanFromContext_optsLocal grow ctx fullMethod service opts st)) =
        slice_elems st opts @ map Some
          ([tracer_ServiceName service,
            tracer_ResourceName fullMethod,
            tracer_Tag tagMethod (StrV fullMethod),
            tracer_SpanType ext_AppTypeRPC,
            tracer_Measured,
            tracer_Tag ext_Component (StrV ''google.golang.org/grpc.v12''),
            tracer_Tag ext_SpanKind (StrV ext_SpanKindServer)] @
           (case tracer_Extract (fst (metadata_FromContext ctx)) of
              Inr sctx \<Rightarrow> [tracer_ChildOf sctx]
            | Inl e \<Rightarrow> [])))"
proof -
  let ?own = "[tracer_ServiceName service,
            tracer_ResourceName fullMethod,
            tracer_Tag tagMethod (StrV fullMethod),
            tracer_SpanType ext_AppTypeRPC,
            tracer_Measured,
            tracer_Tag ext_Component (StrV ''google.golang.org/grpc.v12''),
            tracer_Tag ext_SpanKind (StrV ext_SpanKindServer)]"
  let ?m = "fst (go_make (s_len opts) (s_len opts + 6) st :: slice \<times> StartSpanOption store)"
  let ?st1 = "snd (go_make (s_len opts) (s_len opts + 6) st :: slice \<times> StartSpanOption store)"
  let ?st2 = "go_copy ?m opts ?st1"
  let ?A = "go_append grow ?m ?own ?st2"
  let ?R = "startSpanFromContext_optsLocal grow ctx fullMethod service opts st"
  have R: "?R = (case tracer_Extract (fst (metadata_FromContext ctx)) of
                   Inr sctx \<Rightarrow> go_append grow (fst ?A) [tracer_ChildOf sctx] (snd ?A)
                 | Inl e \<Rightarrow> ?A)"
    by (simp add: startSpanFromContext_optsLocal_def split_def Let_def split: sum.splits)
  have m: "s_array ?m = length st"
    by (simp add: go_make_slice)
  have f1: "take (length st) ?st1 = st" and l1: "length ?st1 = length st + 1"
    by (simp_all add: go_make_store)
  have f2: "take (length st) ?st2 = st" and l2: "length ?st2 = length st + 1"
    by (simp_all add: go_copy_frame m f1 go_copy_length l1)
  have f3: "take (length st) (snd ?A) = st"
    by (simp add: go_append_frame m l2 f2)
  have a3: "length st \<le> s_array (fst ?A)"
    by (simp add: go_append_fresh m l2)
  have l3: "length st \<le> length (snd ?A)"
    using go_append_length [of ?st2 grow ?m ?own] by (simp add: l2)
  have frame: "take (length st) (snd ?R) = st"
    unfolding R by (simp add: f3 go_append_frame a3 l3 split: sum.splits)
  have fresh: "length st \<le> s_array (fst ?R)"
    unfolding R by (simp add: a3 l3 go_append_fresh split: sum.splits)
  have elems: "slice_ok st opts \<longrightarrow>
      slice_elems (snd ?R) opts = slice_elems st opts \<and>
      slice_elems (snd ?R) (fst ?R) =
        slice_elems st opts @ map Some
          (?own @ (case tracer_Extract (fst (metadata_FromContext ctx)) of
              Inr sctx \<Rightarrow> [tracer_ChildOf sctx]
            | Inl e \<Rightarrow> []))"
  proof
    assume ok: "slice_ok st opts"
    then have "s_array opts < length st"
      by (simp add: slice_ok_def)
    with frame have mine: "slice_elems (snd ?R) opts = slice_elems st opts"
      by (rule frame_elems)
    have e2: "slice_elems ?st2 ?m = slice_elems st opts" and ok2: "slice_ok ?st2 ?m"
      using ok by (rule make_copy_elems)+
    have e3: "slice_elems (snd ?A) (fst ?A) = slice_elems st opts @ map Some ?own"
      using go_append_elems [OF ok2, of grow ?own] by (simp only: e2)
    have ok3: "slice_ok (snd ?A) (fst ?A)"
      using ok2 by (rule go_append_ok)
    have "slice_elems (snd ?R) (fst ?R) =
        slice_elems st opts @ map Some
          (?own @ (case tracer_Extract (fst (metadata_FromContext ctx)) of
              Inr sctx \<Rightarrow> [tracer_ChildOf sctx]
            | Inl e \<Rightarrow> []))"
    proof (cases "tracer_Extract (fst (metadata_FromContext ctx))")
      case (Inl e)
      then show ?thesis
        unfolding R by (simp add: e3)
    next
      case (Inr sctx)
      then show ?thesis
        unfolding R using go_append_elems [OF ok3, of grow "[tracer_ChildOf sctx]"]
        by (simp add: e3)
    qed
    with mine show "slice_elems (snd ?R) opts = slice_elems st opts \<and>
      slice_elems (snd ?R) (fst ?R) =
        slice_elems st opts @ map Some
          (?own @ (case tracer_Extract (fst (metadata_FromContext ctx)) of
              Inr sctx \<Rightarrow> [tracer_ChildOf sctx]
            | Inl e \<Rightarrow> []))" ..
  qed
  from frame fresh elems show ?thesis
    by (intro conjI)
qed

theorem startSpanFromContext_leaves_opts_witness:
  "slice_ok example_store example_slice \<and>
   take 1 (snd (startSpanFromContext_optsLocal double_capacity inbound_example
       ''/grpc.Fixture/Ping'' ''grpc.server'' example_slice example_store)) = example_store \<and>
   slice_elems (snd (startSpanFromContext_optsLocal double_capacity inbound_example
       ''/grpc.Fixture/Ping'' ''grpc.server'' example_slice example_store)) example_slice =
     [Some (tracer_Tag ''foo'' (StrV ''bar''))] \<and>
   length (slice_elems (snd (startSpanFromContext_optsLocal double_capacity inbound_example
       ''/grpc.Fixture/Ping'' ''grpc.server'' example_slice example_store))
     (fst (startSpanFromContext_optsLocal double_capacity inbound_example
       ''/grpc.Fixture/Ping'' ''grpc.server'' example_slice example_store))) = 9"
proof -
  have ok: "slice_ok example_store example_slice"
    by (simp add: slice_ok_def example_store_def example_slice_def)
  have l: "length example_store = 1"
    by (simp add: example_store_def)
  have e: "slice_elems example_store example_slice = [Some (tracer_Tag ''foo'' (StrV ''bar''))]"
    by (simp add: slice_elems_def example_store_def example_slice_def)
  from startSpanFromContext_leaves_opts [of example_store double_capacity inbound_example
      "''/grpc.Fixture/Ping''" "''grpc.server''" example_slice] ok
  show ?thesis
    unfolding l e Extract_inbound_example by simp
qed

end
